theory Spec2Isabelle
  imports Complex_Main "HOL-Library.Sublist" "HOL-Library.Product_Lexorder"
begin

section \<open>The trajectory engine of ffe.py\<close>

text \<open>
  The definitions below follow \<^verbatim>\<open>src/bin/ffe.py\<close> function by function and keep its names.
  Python floats are read as real numbers; \<^verbatim>\<open>int(.)\<close> of a float is truncation towards
  zero. Calls into OpenCV, numpy's linear algebra and scipy are either written out (where
  they are elementary: norms, bounding boxes, \<^verbatim>\<open>linspace\<close>) or taken as parameters of
  the function that calls them (contour areas, polygon filling, spline fitting). The ratio
  test of the zone locator, whose outcome turns on the rounding of doubles, is a parameter
  as well.
\<close>

subsection \<open>Python helpers\<close>

datatype py_error = IndexError | ValueError | LibraryError | StopIteration | ZeroDivisionError

definition py_int :: "real \<Rightarrow> int" where
  \<comment> \<open>\<^verbatim>\<open>int(x)\<close> of a float: truncation towards zero.\<close>
  "py_int x = (if 0 \<le> x then \<lfloor>x\<rfloor> else - \<lfloor>- x\<rfloor>)"

subsection \<open>Zone geometry locator: \<^verbatim>\<open>findSeparationZoneBoundaries\<close>\<close>












subsection \<open>Trajectories, slopes and skins\<close>

text \<open>
  A trajectory is a list of \<^verbatim>\<open>(x, y, w)\<close> tuples: integer pixel coordinates, as the tracers
  produce them, and a width. (A width that is a Python integer is halved by floor
  division in \<^verbatim>\<open>calculateTrajectoryRectangle\<close>; for the widths that occur, which are
  not negative, that is the truncation written here.)
\<close>

type_synonym point3 = "int \<times> int \<times> real"
type_synonym trajectory = "point3 list"
type_synonym vec = "real \<times> real"

definition px :: "point3 \<Rightarrow> int" where
  "px p = (case p of (x, y, w) \<Rightarrow> x)"

definition py :: "point3 \<Rightarrow> int" where
  "py p = (case p of (x, y, w) \<Rightarrow> y)"

definition pw :: "point3 \<Rightarrow> real" where
  "pw p = (case p of (x, y, w) \<Rightarrow> w)"

definition vnorm :: "vec \<Rightarrow> real" where
  \<comment> \<open>\<^verbatim>\<open>np.linalg.norm\<close> of a pair, \<^verbatim>\<open>math.hypot\<close> of its components\<close>
  "vnorm v = sqrt ((fst v)\<^sup>2 + (snd v)\<^sup>2)"

definition unitvec :: "vec \<Rightarrow> vec" where
  \<comment> \<open>\<^verbatim>\<open>if np.linalg.norm(v) != 0: v /= np.linalg.norm(v)\<close>\<close>
  "unitvec v = (if vnorm v \<noteq> 0 then (fst v / vnorm v, snd v / vnorm v) else v)"

definition cross2 :: "vec \<Rightarrow> vec \<Rightarrow> real" where
  \<comment> \<open>\<^verbatim>\<open>np.cross\<close> of two plane vectors\<close>
  "cross2 a b = fst a * snd b - snd a * fst b"

definition firstSlope :: "trajectory \<Rightarrow> vec" where
  \<comment> \<open>lines 1232-1234 and 1803-1805: the slope of the first segment\<close>
  "firstSlope t =
     unitvec (real_of_int (px (t ! 1) - px (t ! 0)), real_of_int (py (t ! 1) - py (t ! 0)))"

definition slopeAt :: "trajectory \<Rightarrow> nat \<Rightarrow> vec \<Rightarrow> vec" where
  \<comment> \<open>lines 1239-1246 and 1810-1817: the slope to the next point, the last slope at the end\<close>
  "slopeAt t i lastslope =
     (if int i < int (length t) - 1
      then unitvec (real_of_int (px (t ! (i + 1)) - px (t ! i)),
                    real_of_int (py (t ! (i + 1)) - py (t ! i)))
      else lastslope)"

definition skinvectorOf :: "vec \<Rightarrow> vec \<Rightarrow> vec" where
  \<comment> \<open>lines 1249-1258 and 1820-1829: the normalised difference of the slopes, or the last
      slope turned by 90 degrees when the two are parallel\<close>
  "skinvectorOf slope lastslope =
     (if cross2 slope lastslope = 0 then (- snd lastslope, fst lastslope)
      else unitvec (fst slope - fst lastslope, snd slope - snd lastslope))"

text \<open>
  The loop of \<^verbatim>\<open>getSkinOfTrajectory\<close> (lines 1237-1277): the remaining indices, the last
  slope, and the two sides built so far are returned as the pair (left, right).
\<close>

fun skinLoop :: "trajectory \<Rightarrow> vec \<Rightarrow> nat list \<Rightarrow> (int \<times> int) list \<times> (int \<times> int) list" where
  "skinLoop t lastslope [] = ([], [])"
| "skinLoop t lastslope (i # is) =
     (let slope = slopeAt t i lastslope;
          skinvector = skinvectorOf slope lastslope;
          p0 = (py_int (real_of_int (px (t ! i)) + fst skinvector * pw (t ! i) / 2),
                py_int (real_of_int (py (t ! i)) + snd skinvector * pw (t ! i) / 2));
          p1 = (py_int (real_of_int (px (t ! i)) - fst skinvector * pw (t ! i) / 2),
                py_int (real_of_int (py (t ! i)) - snd skinvector * pw (t ! i) / 2));
          rest = skinLoop t slope is
      in if 0 < cross2 slope skinvector
         then (p0 # fst rest, p1 # snd rest)
         else (p1 # fst rest, p0 # snd rest))"

definition getSkinOfTrajectory :: "trajectory \<Rightarrow> (int \<times> int) list" where
  "getSkinOfTrajectory t =
     (if length t < 2 then []
      else let sides = skinLoop t (firstSlope t) [0..<length t]
           in fst sides @ rev (snd sides))"

text \<open>
  \<^verbatim>\<open>calculateTrajectoryRectangle\<close>: two corner points per trajectory point, then
  \<^verbatim>\<open>cv2.boundingRect\<close>, which gives the least x and y and the extents plus one. OpenCV
  rejects an empty point array, which is \<open>None\<close> here.
\<close>

definition calculateTrajectoryRectangle ::
  "trajectory \<Rightarrow> ((int \<times> int) \<times> (int \<times> int)) option" where
  "calculateTrajectoryRectangle trajectory =
     (let pts = concat (map (\<lambda>triple.
                  [(px triple - py_int (pw triple / 2) - 1, py triple - py_int (pw triple / 2) - 1),
                   (px triple + py_int (pw triple / 2) + 1, py triple + py_int (pw triple / 2) + 1)])
                trajectory)
      in if pts = [] then None
         else let x = Min (fst ` set pts); y = Min (snd ` set pts);
                  w = Max (fst ` set pts) - x + 1; h = Max (snd ` set pts) - y + 1
              in Some ((x, y), (x + w, y + h)))"

subsection \<open>Trajectory comparator: overlap and Hausdorff distance\<close>

text \<open>
  \<^verbatim>\<open>cv2.fillPoly\<close> is a parameter: for a canvas of the given (height, width) and a polygon
  it gives the set of pixels it colours. Counting the pixels of exactly the fill colour is
  the cardinality of that set, and the yellow pixels of the sum of the green and the red
  canvas are those coloured on both.
\<close>

type_synonym fill_poly = "int \<times> int \<Rightarrow> (int \<times> int) list \<Rightarrow> (int \<times> int) set"

definition drawSkin ::
  "fill_poly \<Rightarrow> (int \<times> int) \<times> (int \<times> int) \<Rightarrow> (int \<times> int) list \<Rightarrow> (int \<times> int) set" where
  \<comment> \<open>lines 1310-1331: the canvas size, the offset by the top-left corner, the fill\<close>
  "drawSkin fillPoly rect skin =
     (let width = fst (snd rect) - fst (fst rect); height = snd (snd rect) - snd (fst rect)
      in fillPoly (height, width)
           (map (\<lambda>p. (fst p - fst (fst rect), snd p - snd (fst rect))) skin))"

definition calculateTrajectoriesOverlap ::
  "fill_poly \<Rightarrow> trajectory \<Rightarrow> trajectory \<Rightarrow> py_error + real" where
  "calculateTrajectoriesOverlap fillPoly trac1 trac2 =
     (if length trac1 = 0 \<or> length trac2 = 0 then Inr 0
      else case calculateTrajectoryRectangle (trac1 @ trac2) of
        None \<Rightarrow> Inl LibraryError
      | Some rect \<Rightarrow>
          let skin1 = getSkinOfTrajectory trac1; skin2 = getSkinOfTrajectory trac2 in
          if length skin1 = 0 \<or> length skin2 = 0 then Inr 0
          else let image1 = drawSkin fillPoly rect skin1; image2 = drawSkin fillPoly rect skin2;
                   green = card image1; red = card image2 in
            if min green red = 0 then Inr 0
            else let yellow = card (image1 \<inter> image2) in
              if yellow = 0 then Inr 0
              else Inr (real yellow / real (min green red)))"

definition euclidean :: "int \<times> int \<Rightarrow> int \<times> int \<Rightarrow> real" where
  "euclidean p q = sqrt (real_of_int ((fst p - fst q)\<^sup>2 + (snd p - snd q)\<^sup>2))"

definition calculateTrajectoriesDistanceHausdorff :: "trajectory \<Rightarrow> trajectory \<Rightarrow> real" where
  "calculateTrajectoriesDistanceHausdorff trac1 trac2 =
     (if length trac1 = 0 \<or> length trac2 = 0 then 0
      else let pts1 = map (\<lambda>t. (px t, py t)) trac1; pts2 = map (\<lambda>t. (px t, py t)) trac2;
               rowmins = map (\<lambda>p. Min (set (map (\<lambda>q. euclidean p q) pts2))) pts1;
               colmins = map (\<lambda>q. Min (set (map (\<lambda>p. euclidean p q) pts1))) pts2
           in max (Max (set rowmins)) (Max (set colmins)))"

subsection \<open>Trajectory merger: \<^verbatim>\<open>combineTrajectories\<close>\<close>

definition criteria ::
  "fill_poly \<Rightarrow> real \<Rightarrow> bool \<Rightarrow> real \<Rightarrow> trajectory \<Rightarrow> trajectory \<Rightarrow> py_error + bool" where
  \<comment> \<open>lines 1474-1477\<close>
  "criteria fillPoly maxoverlap useHausdorff hausdorffbias item finalitem =
     (if useHausdorff
      then Inr (calculateTrajectoriesDistanceHausdorff item finalitem \<le> hausdorffbias)
      else case calculateTrajectoriesOverlap fillPoly item finalitem of
             Inl e \<Rightarrow> Inl e
           | Inr overlap \<Rightarrow> Inr (maxoverlap \<le> overlap))"

definition list_index :: "'a list \<Rightarrow> 'a \<Rightarrow> nat" where
  \<comment> \<open>\<^verbatim>\<open>xs.index(x)\<close> for an \<open>x\<close> that occurs: the first position holding an equal value\<close>
  "list_index xs x = length (takeWhile (\<lambda>y. y \<noteq> x) xs)"

text \<open>
  The \<^verbatim>\<open>for finalitem in finallist\<close> loop (lines 1472-1490) over the part of the list not
  yet visited: \<open>Some\<close> of the final list (with the item written over a shorter duplicate)
  at the \<^verbatim>\<open>break\<close>, \<open>None\<close> when no duplicate is present.
\<close>

fun scanFinal ::
  "(trajectory \<Rightarrow> trajectory \<Rightarrow> py_error + bool) \<Rightarrow> trajectory \<Rightarrow> trajectory list \<Rightarrow>
   trajectory list \<Rightarrow> py_error + trajectory list option" where
  "scanFinal crit item finallist [] = Inr None"
| "scanFinal crit item finallist (finalitem # rest) =
     (case crit item finalitem of
        Inl e \<Rightarrow> Inl e
      | Inr True \<Rightarrow>
          Inr (Some (if length finalitem < length item
                     then finallist[list_index finallist finalitem := item]
                     else finallist))
      | Inr False \<Rightarrow> scanFinal crit item finallist rest)"

text \<open>The \<^verbatim>\<open>while len(workinglist) > 0\<close> loop (lines 1464-1494); \<^verbatim>\<open>pop()\<close> takes the last item.\<close>

function mergeLoop ::
  "(trajectory \<Rightarrow> trajectory \<Rightarrow> py_error + bool) \<Rightarrow> trajectory list \<Rightarrow> trajectory list \<Rightarrow>
   py_error + trajectory list" where
  "mergeLoop crit workinglist finallist =
     (if 0 < length workinglist
      then (case scanFinal crit (last workinglist) finallist finallist of
              Inl e \<Rightarrow> Inl e
            | Inr (Some finallist') \<Rightarrow> mergeLoop crit (butlast workinglist) finallist'
            | Inr None \<Rightarrow> mergeLoop crit (butlast workinglist) (finallist @ [last workinglist]))
      else Inr finallist)"
  by pat_completeness auto
termination
  by (relation "measure (\<lambda>(crit, workinglist, finallist). length workinglist)") auto

declare mergeLoop.simps [simp del]

definition combineTrajectories ::
  "fill_poly \<Rightarrow> trajectory list \<Rightarrow> trajectory list \<Rightarrow> real \<Rightarrow> bool \<Rightarrow> real \<Rightarrow>
   py_error + trajectory list" where
  "combineTrajectories fillPoly traclist1 traclist2 maxoverlap useHausdorff hausdorffbias =
     mergeLoop (criteria fillPoly maxoverlap useHausdorff hausdorffbias) (traclist1 @ traclist2) []"





text \<open>
  The pixels the skin polygon of \<open>trac\<close> renders to on the canvas that
  \<^verbatim>\<open>calculateTrajectoriesOverlap\<close> sets up for \<open>trac\<close> and \<open>other\<close>; none when the
  trajectory has no skin polygon.
\<close>

definition skinPixels :: "fill_poly \<Rightarrow> trajectory \<Rightarrow> trajectory \<Rightarrow> (int \<times> int) set" where
  "skinPixels fillPoly trac other =
     (case calculateTrajectoryRectangle (trac @ other) of
        None \<Rightarrow> {}
      | Some rect \<Rightarrow>
          if length (getSkinOfTrajectory trac) = 0 then {}
          else drawSkin fillPoly rect (getSkinOfTrajectory trac))"

text \<open>
  Concrete inputs for the comparator: a fill that colours just the polygon's vertices
  that lie on the canvas, and two horizontal two-point trajectories 100 pixels apart.
\<close>

definition vertexFill :: fill_poly where
  "vertexFill canvas polygon =
     set (filter (\<lambda>p. 0 \<le> fst p \<and> fst p < snd canvas \<and> 0 \<le> snd p \<and> snd p < fst canvas)
            polygon)"

definition tracA :: trajectory where
  "tracA = [(0, 0, 10), (1, 0, 10)]"

definition tracB :: trajectory where
  "tracB = [(0, 100, 10), (1, 100, 10)]"

subsection \<open>Images\<close>

text \<open>
  A single-channel image (a two-dimensional numpy array): its shape and its pixels by
  row \<open>y\<close> and column \<open>x\<close>. Pixel values and their sums are integers; the bounds of
  \<^verbatim>\<open>uint8\<close> and \<^verbatim>\<open>int32\<close> play no part in what follows.
\<close>

record image =
  img_height :: nat
  img_width :: nat
  img_pixel :: "nat \<Rightarrow> nat \<Rightarrow> int"

subsection \<open>Gradient tracer: \<^verbatim>\<open>getTrajectoriesFromImage\<close>\<close>

text \<open>
  One pass through the numeric part of the loop body (lines 1065-1146): the window around
  the target, the two \<^verbatim>\<open>break\<close>s on an empty or dark window, the density maximum, the
  new slope and the attraction of the inlets. It is numpy and floating-point code that
  reads \<^verbatim>\<open>image\<close>, \<^verbatim>\<open>startpoints\<close>, \<^verbatim>\<open>densityrad\<close>, \<^verbatim>\<open>maxattraction\<close>, \<^verbatim>\<open>gradient\<close>,
  the last point of the trajectory and the slope, and nothing else; the tracer takes it as
  a parameter of that type. Its result is a \<^verbatim>\<open>break\<close>, an exception (an index out of the
  window, the maximum of an empty array) or the new target point and slope.
\<close>

datatype step_result = Break | Raise py_error | Move "int \<times> int" vec

type_synonym tracer_step =
  "image \<Rightarrow> point3 list \<Rightarrow> int \<Rightarrow> real \<Rightarrow> int \<Rightarrow> point3 \<Rightarrow> vec \<Rightarrow> step_result"

definition nearInlet :: "int \<times> int \<Rightarrow> int \<Rightarrow> point3 \<Rightarrow> bool" where
  \<comment> \<open>lines 1153-1154: \<^verbatim>\<open>math.hypot(dx, dy) <= pt[2]/2.0 + gradient\<close>\<close>
  "nearInlet targetpoint gradient pt =
     (vnorm (real_of_int (fst targetpoint - px pt), real_of_int (snd targetpoint - py pt))
        \<le> pw pt / 2 + real_of_int gradient)"

text \<open>
  The state of the \<^verbatim>\<open>while run\<close> loop (lines 1063-1163) at the head of an iteration:
  the trajectory, the slope and the counter \<open>i\<close> of completed iterations. The loop ends
  by a \<^verbatim>\<open>break\<close>, or with \<^verbatim>\<open>run = False\<close> after an inlet was reached or after
  \<^verbatim>\<open>i > maxiteration\<close>; the result is the trajectory and the final \<open>i\<close>.
\<close>

function traceLoop ::
  "tracer_step \<Rightarrow> image \<Rightarrow> point3 list \<Rightarrow> int \<Rightarrow> int \<Rightarrow> real \<Rightarrow> int \<Rightarrow>
   trajectory \<Rightarrow> vec \<Rightarrow> int \<Rightarrow> py_error + trajectory \<times> int" where
  "traceLoop step img startpoints maxiteration densityrad maxattraction gradient
     trajectory slope i =
     (case step img startpoints densityrad maxattraction gradient (last trajectory) slope of
        Break \<Rightarrow> Inr (trajectory, i)
      | Raise e \<Rightarrow> Inl e
      | Move targetpoint slope' \<Rightarrow>
          (let reached = filter (nearInlet targetpoint gradient) startpoints;
               trajectory' = trajectory @ [(fst targetpoint, snd targetpoint, 10)] @ reached
           in if reached = [] \<and> \<not> maxiteration < i + 1
              then traceLoop step img startpoints maxiteration densityrad maxattraction gradient
                     trajectory' slope' (i + 1)
              else Inr (trajectory', i + 1)))"
  by pat_completeness auto
termination
  by (relation "measure (\<lambda>(step, img, startpoints, maxiteration, densityrad, maxattraction,
        gradient, trajectory, slope, i). nat (maxiteration + 1 - i))") auto

declare traceLoop.simps [simp del]

definition stepSize :: "image \<Rightarrow> real \<Rightarrow> int" where
  \<comment> \<open>line 1060: \<^verbatim>\<open>gradient = max(int(gradientfactor * max(width, height)), 2)\<close>\<close>
  "stepSize img gradientfactor =
     max (py_int (gradientfactor * real (max (img_width img) (img_height img)))) 2"

text \<open>The \<^verbatim>\<open>for endpoint in endpoints\<close> loop (lines 1045-1168).\<close>

fun traceEndpoints ::
  "tracer_step \<Rightarrow> image \<Rightarrow> point3 list \<Rightarrow> vec \<Rightarrow> int \<Rightarrow> real \<Rightarrow> int \<Rightarrow> real \<Rightarrow>
   point3 list \<Rightarrow> trajectory list \<Rightarrow> py_error + trajectory list" where
  "traceEndpoints step img startpoints flow maxiteration gradientfactor densityrad
     maxattraction [] trajectories = Inr trajectories"
| "traceEndpoints step img startpoints flow maxiteration gradientfactor densityrad
     maxattraction (endpoint # endpoints) trajectories =
     (case traceLoop step img startpoints maxiteration densityrad maxattraction
             (stepSize img gradientfactor) [endpoint] flow 0 of
        Inl e \<Rightarrow> Inl e
      | Inr (trajectory, i) \<Rightarrow>
          traceEndpoints step img startpoints flow maxiteration gradientfactor densityrad
            maxattraction endpoints
            (if 1 < length trajectory then trajectories @ [rev trajectory] else trajectories))"

definition getTrajectoriesFromImage ::
  "tracer_step \<Rightarrow> image \<Rightarrow> point3 list \<Rightarrow> point3 list \<Rightarrow> vec \<Rightarrow> int \<Rightarrow> real \<Rightarrow> int \<Rightarrow> real \<Rightarrow>
   py_error + trajectory list" where
  "getTrajectoriesFromImage step img startpoints endpoints flow maxiteration gradientfactor
     densityrad maxattraction =
     traceEndpoints step img startpoints flow maxiteration gradientfactor densityrad
       maxattraction endpoints []"

text \<open>
  The number of times the loop body is entered for one endpoint: the completed
  iterations, and one more when the loop is left by a \<^verbatim>\<open>break\<close> inside the body.
\<close>

function traceIterations ::
  "tracer_step \<Rightarrow> image \<Rightarrow> point3 list \<Rightarrow> int \<Rightarrow> int \<Rightarrow> real \<Rightarrow> int \<Rightarrow>
   trajectory \<Rightarrow> vec \<Rightarrow> int \<Rightarrow> nat" where
  "traceIterations step img startpoints maxiteration densityrad maxattraction gradient
     trajectory slope i =
     (case step img startpoints densityrad maxattraction gradient (last trajectory) slope of
        Break \<Rightarrow> 1
      | Raise e \<Rightarrow> 1
      | Move targetpoint slope' \<Rightarrow>
          (let reached = filter (nearInlet targetpoint gradient) startpoints;
               trajectory' = trajectory @ [(fst targetpoint, snd targetpoint, 10)] @ reached
           in if reached = [] \<and> \<not> maxiteration < i + 1
              then 1 + traceIterations step img startpoints maxiteration densityrad
                         maxattraction gradient trajectory' slope' (i + 1)
              else 1))"
  by pat_completeness auto
termination
  by (relation "measure (\<lambda>(step, img, startpoints, maxiteration, densityrad, maxattraction,
        gradient, trajectory, slope, i). nat (maxiteration + 1 - i))") auto

declare traceIterations.simps [simp del]

text \<open>
  A concrete step for evaluating the tracer: always one pixel to the left, slope
  unchanged. It is what the body does on a uniformly bright row for a unit step.
\<close>

definition stepLeft :: tracer_step where
  "stepLeft img startpoints densityrad maxattraction gradient lastpoint slope =
     Move (px lastpoint - 1, py lastpoint) slope"

definition brightImage :: "nat \<Rightarrow> nat \<Rightarrow> image" where
  "brightImage h w = \<lparr>img_height = h, img_width = w, img_pixel = (\<lambda>y x. 255)\<rparr>"

subsection \<open>Density image\<close>

text \<open>
  The density image of \<^verbatim>\<open>findPathOnImage\<close> (lines 1536-1544) and of
  \<^verbatim>\<open>findWidthOfTrajectory\<close> (lines 1786-1794), indexed by (row, column). It starts as
  zeros; the two loops write the sum of the window
  \<^verbatim>\<open>image[y:y + 2*densityrad, x:x + 2*densityrad]\<close> to the cell
  \<^verbatim>\<open>[y + densityrad, x + densityrad]\<close> where the image is not zero there. The radius is a
  natural number; \<^verbatim>\<open>xrange\<close> of a negative bound is empty, as the truncated difference is.
  A negative radius, with which the index \<^verbatim>\<open>y + densityrad\<close> can leave the image, is not
  part of the model.
\<close>

type_synonym density = "nat \<times> nat \<Rightarrow> int"

definition windowSum :: "image \<Rightarrow> nat \<Rightarrow> nat \<Rightarrow> nat \<Rightarrow> int" where
  "windowSum img densityrad y x =
     (\<Sum>v \<leftarrow> [y..<y + 2 * densityrad]. \<Sum>u \<leftarrow> [x..<x + 2 * densityrad]. img_pixel img v u)"

definition densityColumn :: "image \<Rightarrow> nat \<Rightarrow> nat \<Rightarrow> density \<Rightarrow> density" where
  \<comment> \<open>the inner loop \<^verbatim>\<open>for y in xrange(height - 2 * densityrad)\<close> for one \<open>x\<close>\<close>
  "densityColumn img densityrad x densityimage =
     fold (\<lambda>y d. if img_pixel img (y + densityrad) (x + densityrad) \<noteq> 0
                  then d((y + densityrad, x + densityrad) := windowSum img densityrad y x)
                  else d)
       [0..<img_height img - 2 * densityrad] densityimage"

definition densityImage :: "image \<Rightarrow> nat \<Rightarrow> density" where
  "densityImage img densityrad =
     fold (densityColumn img densityrad) [0..<img_width img - 2 * densityrad] (\<lambda>p. 0)"

definition allCells :: "nat \<Rightarrow> nat \<Rightarrow> (nat \<times> nat) list" where
  \<comment> \<open>the cells of an array of the given shape in row-major order, as \<^verbatim>\<open>np.where\<close> lists them\<close>
  "allCells height width = concat (map (\<lambda>y. map (\<lambda>x. (y, x)) [0..<width]) [0..<height])"

definition np_index :: "nat \<Rightarrow> int \<Rightarrow> nat option" where
  \<comment> \<open>an integer index into an axis of length \<open>n\<close>: negative indices count from the end,
      \<open>None\<close> is the \<^verbatim>\<open>IndexError\<close>\<close>
  "np_index n i =
     (if 0 \<le> i \<and> i < int n then Some (nat i)
      else if - int n \<le> i \<and> i < 0 then Some (nat (i + int n))
      else None)"

definition np_cell :: "nat \<Rightarrow> nat \<Rightarrow> int \<Rightarrow> int \<Rightarrow> (nat \<times> nat) option" where
  \<comment> \<open>the cell that \<^verbatim>\<open>array[y, x]\<close> reads or writes\<close>
  "np_cell height width y x =
     (case np_index height y of
        None \<Rightarrow> None
      | Some v \<Rightarrow> (case np_index width x of None \<Rightarrow> None | Some u \<Rightarrow> Some (v, u)))"

subsection \<open>Shortest-path tracer: \<^verbatim>\<open>findPathOnImage\<close>\<close>

text \<open>
  A queue entry is the tuple \<^verbatim>\<open>(distance, x, y)\<close>; tuples are ordered lexicographically, as
  Python orders them. The queue is a \<^verbatim>\<open>heapq\<close> list. At the head of every iteration of
  the search loop it is a valid heap (it is built by pushes, and re-heapified after every
  deletion), so \<^verbatim>\<open>heappop\<close> takes its least tuple; a deletion followed by a push
  replaces one tuple. The model keeps the queue as a list of the same tuples and does not
  fix their layout: the loop treats each neighbour on its own, so its result does not
  depend on it.
\<close>

type_synonym qitem = "int \<times> int \<times> int"

definition q_dist :: "qitem \<Rightarrow> int" where
  "q_dist item = (case item of (d, x, y) \<Rightarrow> d)"

definition q_x :: "qitem \<Rightarrow> int" where
  "q_x item = (case item of (d, x, y) \<Rightarrow> x)"

definition q_y :: "qitem \<Rightarrow> int" where
  "q_y item = (case item of (d, x, y) \<Rightarrow> y)"

definition pointIndex :: "(nat \<times> nat) list \<Rightarrow> int \<Rightarrow> int \<Rightarrow> nat option" where
  \<comment> \<open>\<^verbatim>\<open>points.index(next(item for item in points if item[1] == x and item[0] == y))\<close>;
      \<open>None\<close> is the \<^verbatim>\<open>StopIteration\<close> of \<^verbatim>\<open>next\<close>\<close>
  "pointIndex points x y =
     (if \<exists>p \<in> set points. int (snd p) = x \<and> int (fst p) = y
      then Some (length (takeWhile (\<lambda>p. \<not> (int (snd p) = x \<and> int (fst p) = y)) points))
      else None)"

text \<open>The \<^verbatim>\<open>for neighbour in neighbours\<close> loop (lines 1608-1631).\<close>

fun relax ::
  "density \<Rightarrow> int \<Rightarrow> (nat \<times> nat) list \<Rightarrow> qitem \<Rightarrow> qitem list \<Rightarrow> qitem list \<Rightarrow> density \<Rightarrow>
   py_error + qitem list \<times> density" where
  "relax densityimage maxintensity points firstitem [] queue tracker = Inr (queue, tracker)"
| "relax densityimage maxintensity points firstitem (neighbour # rest) queue tracker =
     (if q_dist firstitem
          + (maxintensity - densityimage (nat (q_y neighbour), nat (q_x neighbour)))
          < q_dist neighbour
      then (if neighbour \<notin> set queue then Inl ValueError
            else case pointIndex points (q_x firstitem) (q_y firstitem) of
              None \<Rightarrow> Inl StopIteration
            | Some k \<Rightarrow>
                relax densityimage maxintensity points firstitem rest
                  (remove1 neighbour queue @
                     [(q_dist firstitem
                         + (maxintensity - densityimage (nat (q_y neighbour), nat (q_x neighbour))),
                       q_x neighbour, q_y neighbour)])
                  (tracker((nat (q_y neighbour), nat (q_x neighbour)) := int k)))
      else relax densityimage maxintensity points firstitem rest queue tracker)"

definition neighboursOf :: "qitem \<Rightarrow> qitem list \<Rightarrow> qitem list" where
  \<comment> \<open>line 1603: the queued nodes at a distance that truncates to 1\<close>
  "neighboursOf firstitem queue =
     filter (\<lambda>node. py_int (vnorm (real_of_int (q_x node - q_x firstitem),
                                    real_of_int (q_y node - q_y firstitem))) = 1) queue"

lemma relax_length:
  "relax densityimage maxintensity points firstitem neighbours queue tracker = Inr (queue', tracker')
   \<Longrightarrow> length queue' = length queue"
proof (induction neighbours arbitrary: queue tracker)
  case Nil
  then show ?case by simp
next
  case (Cons neighbour rest)
  show ?case
  proof (cases "q_dist firstitem
          + (maxintensity - densityimage (nat (q_y neighbour), nat (q_x neighbour)))
          < q_dist neighbour")
    case False
    then show ?thesis using Cons.prems Cons.IH by simp
  next
    case True
    show ?thesis
    proof (cases "neighbour \<in> set queue")
      case False
      then show ?thesis using True Cons.prems by simp
    next
      case mem: True
      show ?thesis
      proof (cases "pointIndex points (q_x firstitem) (q_y firstitem)")
        case None
        then show ?thesis using True mem Cons.prems by simp
      next
        case (Some k)
        have "length queue' = length (remove1 neighbour queue @
                     [(q_dist firstitem
                         + (maxintensity - densityimage (nat (q_y neighbour), nat (q_x neighbour))),
                       q_x neighbour, q_y neighbour)])"
          using True mem Some Cons.prems by (intro Cons.IH) simp
        also have "\<dots> = length queue"
          using mem length_pos_if_in_set [OF mem] by (simp add: length_remove1)
        finally show ?thesis .
      qed
    qed
  qed
qed

text \<open>
  The \<^verbatim>\<open>while len(queue) > 0\<close> loop (lines 1594-1635): pop the least tuple, stop at the
  end point, relax the neighbours. It returns the tracker.
\<close>

function searchLoop ::
  "density \<Rightarrow> int \<Rightarrow> (nat \<times> nat) list \<Rightarrow> int \<times> int \<Rightarrow> qitem list \<Rightarrow> density \<Rightarrow>
   py_error + density" where
  "searchLoop densityimage maxintensity points endpoint queue tracker =
     (if 0 < length queue
      then (if q_x (Min (set queue)) = fst endpoint \<and> q_y (Min (set queue)) = snd endpoint
            then Inr tracker
            else case relax densityimage maxintensity points (Min (set queue))
                        (neighboursOf (Min (set queue)) (remove1 (Min (set queue)) queue))
                        (remove1 (Min (set queue)) queue) tracker of
                   Inl e \<Rightarrow> Inl e
                 | Inr (queue', tracker') \<Rightarrow>
                     searchLoop densityimage maxintensity points endpoint queue' tracker')
      else Inr tracker)"
  by pat_completeness auto
termination
proof (relation "measure (\<lambda>(densityimage, maxintensity, points, endpoint, queue, tracker).
          length queue)", goal_cases)
  case 1
  then show ?case by simp
next
  case (2 densityimage maxintensity points endpoint queue tracker x2 queue' tracker')
  have eq: "relax densityimage maxintensity points (Min (set queue))
       (neighboursOf (Min (set queue)) (remove1 (Min (set queue)) queue))
       (remove1 (Min (set queue)) queue) tracker = Inr (queue', tracker')"
    using 2 by simp
  have "length queue' = length (remove1 (Min (set queue)) queue)"
    by (rule relax_length [OF eq])
  moreover have "Min (set queue) \<in> set queue"
    using 2(1) by (intro Min_in) auto
  ultimately show ?case using 2(1) by (simp add: length_remove1)
qed

declare searchLoop.simps [simp del]

definition py_nth :: "'a list \<Rightarrow> int \<Rightarrow> 'a option" where
  \<comment> \<open>\<^verbatim>\<open>xs[i]\<close> of a list; \<open>None\<close> is the \<^verbatim>\<open>IndexError\<close>\<close>
  "py_nth xs i = (case np_index (length xs) i of None \<Rightarrow> None | Some k \<Rightarrow> Some (xs ! k))"

text \<open>
  The backtracking loop (lines 1655-1664) from the end point along the tracker. \<open>None\<close>
  stands for a loop that does not end.
\<close>

partial_function (option) backtrack ::
  "density \<Rightarrow> (nat \<times> nat) list \<Rightarrow> int \<times> int \<Rightarrow> int \<Rightarrow> nat \<times> nat \<Rightarrow> (int \<times> int) list \<Rightarrow> int \<Rightarrow>
   (py_error + (int \<times> int) list) option" where
  "backtrack tracker points startpoint everyotherpoint current path n =
     (if tracker current \<noteq> - 1 \<and>
         \<not> (int (snd current) = fst startpoint \<and> int (fst current) = snd startpoint)
      then (case py_nth points (tracker current) of
              None \<Rightarrow> Some (Inl IndexError)
            | Some current' \<Rightarrow>
                if everyotherpoint = 0 then Some (Inl ZeroDivisionError)
                else backtrack tracker points startpoint everyotherpoint current'
                       (if n mod everyotherpoint = 0 \<or>
                           (int (snd current') = fst startpoint \<and> int (fst current') = snd startpoint)
                        then (int (snd current'), int (fst current')) # path
                        else path)
                       (n + 1))
      else Some (Inr path))"

definition findPathOnImage ::
  "image \<Rightarrow> int \<times> int \<Rightarrow> int \<times> int \<Rightarrow> int \<Rightarrow> int \<Rightarrow> nat \<Rightarrow> (py_error + (int \<times> int) list) option" where
  "findPathOnImage img startpoint endpoint bias everyotherpoint densityrad =
     (let height = img_height img; width = img_width img;
          infinite = py_int (vnorm (real height, real width) * 100000000);
          densityimage = densityImage img densityrad
      in if height = 0 \<or> width = 0 then Some (Inl ValueError)
         else let maxintensity = Max (set (map densityimage (allCells height width))) in
           case np_cell height width (snd startpoint) (fst startpoint) of
             None \<Rightarrow> Some (Inl IndexError)
           | Some s \<Rightarrow>
               if densityimage s = 0 then Some (Inr [])
               else (case np_cell height width (snd endpoint) (fst endpoint) of
                 None \<Rightarrow> Some (Inl IndexError)
               | Some e \<Rightarrow>
                   if densityimage e = 0 then Some (Inr [])
                   else let points = filter (\<lambda>p. bias < densityimage p) (allCells height width);
                            queue = map (\<lambda>pt. (if int (snd pt) = fst startpoint \<and>
                                                   int (fst pt) = snd startpoint
                                                then 0 else infinite, int (snd pt), int (fst pt)))
                                      points
                        in case searchLoop densityimage maxintensity points endpoint queue
                                  ((\<lambda>p. 0)(e := - 1)) of
                             Inl err \<Rightarrow> Some (Inl err)
                           | Inr tracker \<Rightarrow>
                               if (tracker(s := - 1)) e = - 1 then Some (Inr [])
                               else (case List.find (\<lambda>p. int (snd p) = fst endpoint \<and>
                                                         int (fst p) = snd endpoint) points of
                                 None \<Rightarrow> Some (Inl StopIteration)
                               | Some current \<Rightarrow>
                                   (case backtrack (tracker(s := - 1)) points startpoint
                                           everyotherpoint current [endpoint] 0 of
                                      None \<Rightarrow> None
                                    | Some (Inl err) \<Rightarrow> Some (Inl err)
                                    | Some (Inr path) \<Rightarrow>
                                        Some (Inr (if length path < 2 then [] else path))))))"

subsection \<open>Shortest-path tracer: \<^verbatim>\<open>getTrajectoriesFromImageDijkstra\<close>\<close>

text \<open>
  Lines 1727-1741: a start point on a dark pixel is moved to the nearest pixel brighter
  than \<open>bias\<close> when that is within \<^verbatim>\<open>startpoint[2]*spvariancefactor\<close>. The sort by
  distance is stable, so its first element is the first nearest pixel in row-major order;
  with no bright pixel \<^verbatim>\<open>points[0]\<close> raises.
\<close>

definition snapStart :: "image \<Rightarrow> int \<Rightarrow> real \<Rightarrow> point3 \<Rightarrow> py_error + point3" where
  "snapStart img bias spvariancefactor startpoint =
     (case np_cell (img_height img) (img_width img) (py startpoint) (px startpoint) of
        None \<Rightarrow> Inl IndexError
      | Some c \<Rightarrow>
          if img_pixel img (fst c) (snd c) \<noteq> 0 then Inr startpoint
          else (case filter (\<lambda>p. bias < img_pixel img (fst p) (snd p))
                      (allCells (img_height img) (img_width img)) of
                  [] \<Rightarrow> Inl IndexError
                | p # ps \<Rightarrow>
                    let dist = (\<lambda>q. vnorm (real_of_int (px startpoint - int (snd q)),
                                             real_of_int (py startpoint - int (fst q))));
                        nearest = foldl (\<lambda>best q. if dist q < dist best then q else best) p ps
                    in if dist nearest \<le> pw startpoint * spvariancefactor
                       then Inr (int (snd nearest), int (fst nearest), pw startpoint)
                       else Inr startpoint))"

text \<open>The inner loop over the start points for one end point (lines 1725-1754).\<close>

fun pathsToStartpoints ::
  "image \<Rightarrow> int \<Rightarrow> int \<Rightarrow> nat \<Rightarrow> real \<Rightarrow> point3 \<Rightarrow> point3 list \<Rightarrow> trajectory list \<Rightarrow>
   (py_error + trajectory list) option" where
  "pathsToStartpoints img bias everyotherpoint densityrad spvariancefactor endpoint []
     trajectories = Some (Inr trajectories)"
| "pathsToStartpoints img bias everyotherpoint densityrad spvariancefactor endpoint
     (startpoint # rest) trajectories =
     (case snapStart img bias spvariancefactor startpoint of
        Inl e \<Rightarrow> Some (Inl e)
      | Inr startpoint' \<Rightarrow>
          (case findPathOnImage img (px endpoint, py endpoint) (px startpoint', py startpoint')
                  bias everyotherpoint densityrad of
             None \<Rightarrow> None
           | Some (Inl e) \<Rightarrow> Some (Inl e)
           | Some (Inr path) \<Rightarrow>
               pathsToStartpoints img bias everyotherpoint densityrad spvariancefactor endpoint
                 rest
                 (if 0 < length path
                  then trajectories @ [map (\<lambda>p. (fst p, snd p, 10)) (rev path)]
                  else trajectories)))"

text \<open>The outer loop over the end points (line 1722).\<close>

fun pathsFromEndpoints ::
  "image \<Rightarrow> int \<Rightarrow> int \<Rightarrow> nat \<Rightarrow> real \<Rightarrow> point3 list \<Rightarrow> point3 list \<Rightarrow> trajectory list \<Rightarrow>
   (py_error + trajectory list) option" where
  "pathsFromEndpoints img bias everyotherpoint densityrad spvariancefactor startpoints []
     trajectories = Some (Inr trajectories)"
| "pathsFromEndpoints img bias everyotherpoint densityrad spvariancefactor startpoints
     (endpoint # rest) trajectories =
     (case pathsToStartpoints img bias everyotherpoint densityrad spvariancefactor endpoint
             startpoints trajectories of
        None \<Rightarrow> None
      | Some (Inl e) \<Rightarrow> Some (Inl e)
      | Some (Inr trajectories') \<Rightarrow>
          pathsFromEndpoints img bias everyotherpoint densityrad spvariancefactor startpoints
            rest trajectories')"

definition getTrajectoriesFromImageDijkstra ::
  "image \<Rightarrow> point3 list \<Rightarrow> point3 list \<Rightarrow> int \<Rightarrow> int \<Rightarrow> nat \<Rightarrow> real \<Rightarrow>
   (py_error + trajectory list) option" where
  "getTrajectoriesFromImageDijkstra img startpoints endpoints bias everyotherpoint densityrad
     spvariancefactor =
     (if img_height img = 0 \<or> img_width img = 0 then Some (Inl ValueError)
      else if Max (set (map (\<lambda>p. img_pixel img (fst p) (snd p))
                          (allCells (img_height img) (img_width img)))) = 0
      then Some (Inr [])
      else pathsFromEndpoints img bias everyotherpoint densityrad spvariancefactor startpoints
             endpoints [])"

subsection \<open>Width profiler: \<^verbatim>\<open>findWidthOfTrajectory\<close>\<close>

text \<open>
  \<^verbatim>\<open>np.linspace(a, b, n)\<close>: no point for \<open>n = 0\<close>, the start for \<open>n = 1\<close>, and otherwise
  \<open>n\<close> points in steps of \<open>(b - a) / (n - 1)\<close>.
\<close>

definition linspace :: "real \<Rightarrow> real \<Rightarrow> nat \<Rightarrow> real list" where
  "linspace a b n =
     (if n = 1 then [a] else map (\<lambda>k. a + real k * ((b - a) / real (n - 1))) [0..<n])"

definition samplePoints :: "vec \<Rightarrow> vec \<Rightarrow> nat \<Rightarrow> (int \<times> int) list" where
  \<comment> \<open>lines 1841-1842: the pixel coordinates along the line, truncated by \<^verbatim>\<open>astype(np.int)\<close>\<close>
  "samplePoints w1 w2 n =
     zip (map py_int (linspace (fst w1) (fst w2) n)) (map py_int (linspace (snd w1) (snd w2) n))"

definition sampleValues :: "density \<Rightarrow> nat \<Rightarrow> nat \<Rightarrow> (int \<times> int) list \<Rightarrow> int list" where
  \<comment> \<open>lines 1845-1850: the density along the line, zero outside the image\<close>
  "sampleValues densityimage height width wpoints =
     map (\<lambda>p. if 0 \<le> fst p \<and> fst p < int width \<and> 0 \<le> snd p \<and> snd p < int height
              then densityimage (nat (snd p), nat (fst p)) else 0) wpoints"

definition sliceDown :: "'a list \<Rightarrow> nat \<Rightarrow> 'a list" where
  \<comment> \<open>\<^verbatim>\<open>xs[m:0:-1]\<close>: the elements at the indices \<open>min m (len - 1)\<close> down to 1\<close>
  "sliceDown xs m = rev (tl (take (m + 1) xs))"

definition firstZero :: "int list \<Rightarrow> nat option" where
  \<comment> \<open>\<^verbatim>\<open>np.argwhere(values == 0)[0][0]\<close>; \<open>None\<close> is the \<^verbatim>\<open>IndexError\<close> of the index 0
      into an empty array\<close>
  "firstZero vs = (if 0 \<in> set vs then Some (length (takeWhile (\<lambda>v. v \<noteq> 0) vs)) else None)"

text \<open>
  The rest of the loop body (lines 1877-1905) computes the stream width from the
  truncated cross-section and the index of the point in it: local minima by
  \<^verbatim>\<open>scipy.signal.argrelextrema\<close>, the base line, and the roots of a
  \<^verbatim>\<open>scipy.interpolate.UnivariateSpline\<close>. It reads nothing else and writes only
  \<^verbatim>\<open>streamwidth\<close>; the profiler takes it as a parameter, whose result is the width or an
  exception of the library.
\<close>

type_synonym width_profile = "int list \<Rightarrow> nat \<Rightarrow> py_error + real"

text \<open>
  The \<^verbatim>\<open>for i in xrange(len(trajectory))\<close> loop (lines 1808-1961): the remaining indices,
  the last slope and the new trajectory so far. A point whose sample line is empty is
  skipped by \<^verbatim>\<open>continue\<close>, which also skips the update of the last slope.
\<close>

fun widthLoop ::
  "width_profile \<Rightarrow> density \<Rightarrow> nat \<Rightarrow> nat \<Rightarrow> trajectory \<Rightarrow> vec \<Rightarrow> nat list \<Rightarrow> trajectory \<Rightarrow>
   py_error + trajectory" where
  "widthLoop profile densityimage height width t lastslope [] newtrajectory = Inr newtrajectory"
| "widthLoop profile densityimage height width t lastslope (i # is) newtrajectory =
     (let maxwidth = height div 2;
          slope = slopeAt t i lastslope;
          skinvector = skinvectorOf slope lastslope;
          w1 = (real_of_int (px (t ! i)) + real maxwidth * fst skinvector,
                real_of_int (py (t ! i)) + real maxwidth * snd skinvector);
          w2 = (real_of_int (px (t ! i)) - real maxwidth * fst skinvector,
                real_of_int (py (t ! i)) - real maxwidth * snd skinvector);
          wdistance = py_int (vnorm (fst w1 - fst w2, snd w1 - snd w2));
          wvalues = sampleValues densityimage height width (samplePoints w1 w2 (nat wdistance))
      in if length wvalues = 0
         then widthLoop profile densityimage height width t lastslope is newtrajectory
         else (case firstZero (sliceDown wvalues maxwidth) of
                 None \<Rightarrow> Inl IndexError
               | Some indexleft \<Rightarrow>
                   (case firstZero (drop maxwidth wvalues) of
                      None \<Rightarrow> Inl IndexError
                    | Some indexright \<Rightarrow>
                        (case profile (sliceDown (sliceDown wvalues maxwidth) indexleft @
                                         take (indexright + 1) (drop maxwidth wvalues))
                                indexleft of
                           Inl e \<Rightarrow> Inl e
                         | Inr streamwidth \<Rightarrow>
                             widthLoop profile densityimage height width t slope is
                               (newtrajectory @ [(px (t ! i), py (t ! i), streamwidth)])))))"

text \<open>The pass over the zero widths (lines 1963-1974), which updates the list in place.\<close>

definition fixZeroWidths :: "trajectory \<Rightarrow> trajectory" where
  "fixZeroWidths newtrajectory =
     (if 2 < length newtrajectory
      then fold (\<lambda>i nt.
                   if i = 0 \<or> i = length newtrajectory - 1 then nt
                   else if pw (nt ! i) = 0 \<and> pw (nt ! (i - 1)) \<noteq> 0 \<and> pw (nt ! (i + 1)) \<noteq> 0
                   then nt[i := (px (nt ! i), py (nt ! i),
                                 real_of_int (py_int ((pw (nt ! (i - 1)) + pw (nt ! (i + 1))) / 2)))]
                   else nt)
             [0..<length newtrajectory] newtrajectory
      else newtrajectory)"

definition findWidthOfTrajectory ::
  "width_profile \<Rightarrow> image \<Rightarrow> trajectory \<Rightarrow> nat \<Rightarrow> py_error + trajectory" where
  "findWidthOfTrajectory profile img trajectory densityrad =
     (if length trajectory < 2 then Inr []
      else case widthLoop profile (densityImage img densityrad) (img_height img) (img_width img)
                  trajectory (firstSlope trajectory) [0..<length trajectory] [] of
             Inl e \<Rightarrow> Inl e
           | Inr newtrajectory \<Rightarrow> Inr (fixZeroWidths newtrajectory))"

definition xy :: "point3 \<Rightarrow> int \<times> int" where
  "xy p = (px p, py p)"


subsection \<open>Interpolation of a trajectory: \<^verbatim>\<open>getYandWofTrajectory\<close>\<close>

text \<open>
  The two spline fits are calls into scipy and parameters of the function. The first is
  \<^verbatim>\<open>InterpolatedUnivariateSpline(points[0], points[1], ext=3)(x)\<close>: from the points of the
  trajectory and \<open>x\<close> to the value of the spline at \<open>x\<close>, or an exception. The second is
  \<^verbatim>\<open>UnivariateSpline(skin[0], skin[1], ext=3)\<close> inside \<^verbatim>\<open>warnings.catch_warnings\<close>: from
  the points of one side of the skin to an exception, or to the pair of whether a warning
  was recorded and the fitted spline, whose value is \<open>None\<close> where it is not a finite
  number.
\<close>

text \<open>
  An empty side of the skin gives an empty array, whose row 0 does not exist: that is the
  \<^verbatim>\<open>IndexError\<close> below.
\<close>

type_synonym centerline_fit = "(int \<times> int) list \<Rightarrow> real \<Rightarrow> py_error + real"
type_synonym skin_fit = "(int \<times> int) list \<Rightarrow> py_error + bool \<times> (real \<Rightarrow> real option)"

definition dictItems :: "(int \<times> int) list \<Rightarrow> (int \<times> int) list" where
  \<comment> \<open>\<^verbatim>\<open>dict(pairs).items()\<close>, in the order of the keys as line 2111 sorts them: one pair for
      every key, with the value of the last pair of that key\<close>
  "dictItems pairs =
     map (\<lambda>k. (k, the (map_of (rev pairs) k))) (sort (remdups (map fst pairs)))"

definition withinX :: "(int \<times> int) list \<Rightarrow> real \<Rightarrow> bool" where
  \<comment> \<open>\<^verbatim>\<open>min(a[0]) <= x <= max(a[0])\<close> for the array \<open>a\<close> of the transposed points\<close>
  "withinX pts x =
     (real_of_int (Min (fst ` set pts)) \<le> x \<and> x \<le> real_of_int (Max (fst ` set pts)))"

definition skinLeftOf :: "trajectory \<Rightarrow> (int \<times> int) list" where
  \<comment> \<open>line 2104: \<^verbatim>\<open>dict(skin[:halflen-1])\<close>, for a skin of at least two points\<close>
  "skinLeftOf trajectory =
     (let skin = getSkinOfTrajectory trajectory
      in dictItems (take (length skin div 2 - 1) skin))"

definition skinRightOf :: "trajectory \<Rightarrow> (int \<times> int) list" where
  \<comment> \<open>line 2105: \<^verbatim>\<open>dict((skin[halflen:])[::-1])\<close>\<close>
  "skinRightOf trajectory =
     (let skin = getSkinOfTrajectory trajectory
      in dictItems (rev (drop (length skin div 2) skin)))"

definition getYandWofTrajectory ::
  "centerline_fit \<Rightarrow> skin_fit \<Rightarrow> trajectory \<Rightarrow> real \<Rightarrow> py_error + real \<times> real" where
  "getYandWofTrajectory interpolate smooth trajectory x =
     (if length trajectory < 4 then Inr (0, - 1)
      else if \<not> withinX (map xy trajectory) x then Inr (0, - 1)
      else (case interpolate (map xy trajectory) x of
              Inl e \<Rightarrow> Inl e
            | Inr y \<Rightarrow>
                if length (getSkinOfTrajectory trajectory) mod 2 \<noteq> 0 then Inr (0, - 1)
                else if skinLeftOf trajectory = [] then Inl IndexError
                else if \<not> withinX (skinLeftOf trajectory) x then Inr (y, - 1)
                else if skinRightOf trajectory = [] then Inl IndexError
                else if \<not> withinX (skinRightOf trajectory) x then Inr (y, - 1)
                else (case smooth (skinLeftOf trajectory) of
                        Inl e \<Rightarrow> Inl e
                      | Inr (warnleft, splineleft) \<Rightarrow>
                          (case smooth (skinRightOf trajectory) of
                             Inl e \<Rightarrow> Inl e
                           | Inr (warnright, splineright) \<Rightarrow>
                               if warnleft \<or> warnright then Inr (y, - 1)
                               else (case (splineleft x, splineright x) of
                                       (Some l, Some r) \<Rightarrow> Inr (y, \<bar>l - r\<bar>)
                                     | _ \<Rightarrow> Inr (y, - 1))))))"

text \<open>
  Concrete fits for a level trajectory: the interpolating spline of points that all have
  the ordinate of the first one is constant, also outside of its range (\<^verbatim>\<open>ext=3\<close> returns
  the boundary value); a fit that records a warning; and the trajectory of four points at
  \<open>y = 5\<close> with the width 2.
\<close>

definition levelInterpolate :: centerline_fit where
  "levelInterpolate points x = Inr (real_of_int (snd (hd points)))"

definition warningSmooth :: skin_fit where
  "warningSmooth points = Inr (True, \<lambda>x. Some (real_of_int (snd (hd points))))"

definition levelTrajectory :: trajectory where
  "levelTrajectory = [(0, 5, 2), (1, 5, 2), (2, 5, 2), (3, 5, 2)]"

(*DEFS-END*)

section \<open>Properties\<close>

subsection \<open>Zone geometry locator\<close>









subsection \<open>Skins and the overlap metric\<close>

lemma skinLoop_length:
  "length (fst (skinLoop t lastslope js)) = length js \<and>
   length (snd (skinLoop t lastslope js)) = length js"
  by (induction js arbitrary: lastslope) (simp_all add: Let_def)

lemma getSkinOfTrajectory_length:
  "length (getSkinOfTrajectory t) = (if length t < 2 then 0 else 2 * length t)"
  by (simp add: getSkinOfTrajectory_def Let_def skinLoop_length)

lemma rect_append_commute:
  "calculateTrajectoryRectangle (a @ b) = calculateTrajectoryRectangle (b @ a)"
proof -
  let ?f = "\<lambda>triple::point3.
                  [(px triple - py_int (pw triple / 2) - 1, py triple - py_int (pw triple / 2) - 1),
                   (px triple + py_int (pw triple / 2) + 1, py triple + py_int (pw triple / 2) + 1)]"
  have s: "set (concat (map ?f (a @ b))) = set (concat (map ?f (b @ a)))" by auto
  have e: "concat (map ?f (a @ b)) = [] \<longleftrightarrow> concat (map ?f (b @ a)) = []" by auto
  show ?thesis unfolding calculateTrajectoryRectangle_def Let_def s e ..
qed

lemma rect_Nil: "calculateTrajectoryRectangle [] = None"
  by (simp add: calculateTrajectoryRectangle_def)

lemma overlap_commute:
  "calculateTrajectoriesOverlap fillPoly a b = calculateTrajectoriesOverlap fillPoly b a"
  unfolding calculateTrajectoriesOverlap_def rect_append_commute [of a b]
  by (auto simp: Let_def min.commute Int_commute split: option.splits)

lemma overlap_self:
  "0 < card (skinPixels fillPoly t t) \<Longrightarrow> calculateTrajectoriesOverlap fillPoly t t = Inr 1"
  by (auto simp: skinPixels_def calculateTrajectoriesOverlap_def Let_def rect_Nil
      split: option.splits if_splits)

lemma skin_tracA: "getSkinOfTrajectory tracA = [(0, 5), (1, 5), (1, - 5), (0, - 5)]"
  by (simp add: getSkinOfTrajectory_def tracA_def firstSlope_def px_def py_def pw_def unitvec_def
      vnorm_def Let_def upt_rec slopeAt_def skinvectorOf_def cross2_def py_int_def)

lemma rect_tracA: "calculateTrajectoryRectangle (tracA @ tracA) = Some ((- 6, - 6), (8, 7))"
  by (simp add: calculateTrajectoryRectangle_def tracA_def px_def py_def pw_def py_int_def Let_def)

lemma pixels_tracA: "0 < card (skinPixels vertexFill tracA tracA)"
  by (simp add: skinPixels_def rect_tracA skin_tracA drawSkin_def vertexFill_def)

text \<open>
  C6. A trajectory whose skin polygon renders to at least one pixel overlaps itself
  fully, \<^verbatim>\<open>calculateTrajectoriesOverlap(t, t) = 1.0\<close>, and the overlap of two trajectories
  does not depend on their order. Both hold for every polygon fill.
\<close>

theorem calculateTrajectoriesOverlap_self_and_symmetric:
  "(0 < card (skinPixels fillPoly t t) \<longrightarrow> calculateTrajectoriesOverlap fillPoly t t = Inr 1) \<and>
   calculateTrajectoriesOverlap fillPoly a b = calculateTrajectoriesOverlap fillPoly b a"
proof (intro conjI impI)
  assume "0 < card (skinPixels fillPoly t t)"
  then show "calculateTrajectoriesOverlap fillPoly t t = Inr 1" by (rule overlap_self)
next
  show "calculateTrajectoriesOverlap fillPoly a b = calculateTrajectoriesOverlap fillPoly b a"
    by (rule overlap_commute)
qed

text \<open>The theorem at the two-point trajectory \<open>tracA\<close>, whose skin has four vertices on the canvas.\<close>

theorem calculateTrajectoriesOverlap_self_and_symmetric_witness:
  "0 < card (skinPixels vertexFill tracA tracA) \<and>
   calculateTrajectoriesOverlap vertexFill tracA tracA = Inr 1 \<and>
   calculateTrajectoriesOverlap vertexFill tracA tracB
     = calculateTrajectoriesOverlap vertexFill tracB tracA"
proof -
  note inst = calculateTrajectoriesOverlap_self_and_symmetric
    [of vertexFill tracA tracA tracB]
  from inst have self: "0 < card (skinPixels vertexFill tracA tracA) \<longrightarrow>
      calculateTrajectoriesOverlap vertexFill tracA tracA = Inr 1" ..
  from inst have sym: "calculateTrajectoriesOverlap vertexFill tracA tracB
      = calculateTrajectoriesOverlap vertexFill tracB tracA" ..
  from self pixels_tracA sym show ?thesis by blast
qed

subsection \<open>Hausdorff distance and the merge\<close>

lemma euclidean_self: "euclidean p p = 0"
  by (simp add: euclidean_def)

lemma euclidean_nonneg: "0 \<le> euclidean p q"
  by (simp add: euclidean_def)

lemma hausdorff_empty: "calculateTrajectoriesDistanceHausdorff [] t = 0"
  by (simp add: calculateTrajectoriesDistanceHausdorff_def)

lemma Min_dist_self:
  assumes "p \<in> set ps"
  shows "Min (set (map (\<lambda>q. euclidean p q) ps)) = 0"
    and "Min (set (map (\<lambda>q. euclidean q p) ps)) = 0"
proof -
  have "Min (set (map (\<lambda>q. euclidean p q) ps)) \<le> euclidean p p"
    using assms by (intro Min_le) auto
  moreover have "0 \<le> Min (set (map (\<lambda>q. euclidean p q) ps))"
    using assms by (subst Min_ge_iff) (auto simp: euclidean_nonneg)
  ultimately show "Min (set (map (\<lambda>q. euclidean p q) ps)) = 0"
    by (simp add: euclidean_self)
  have "Min (set (map (\<lambda>q. euclidean q p) ps)) \<le> euclidean p p"
    using assms by (intro Min_le) auto
  moreover have "0 \<le> Min (set (map (\<lambda>q. euclidean q p) ps))"
    using assms by (subst Min_ge_iff) (auto simp: euclidean_nonneg)
  ultimately show "Min (set (map (\<lambda>q. euclidean q p) ps)) = 0"
    by (simp add: euclidean_self)
qed

lemma hausdorff_self: "calculateTrajectoriesDistanceHausdorff t t = 0"
proof (cases "t = []")
  case True
  then show ?thesis by (simp add: calculateTrajectoriesDistanceHausdorff_def)
next
  case False
  let ?ps = "map (\<lambda>t. (px t, py t)) t"
  have ne: "?ps \<noteq> []" using False by simp
  have r: "map (\<lambda>p. Min (set (map (\<lambda>q. euclidean p q) ?ps))) ?ps = map (\<lambda>p. 0) ?ps"
    by (rule map_cong [OF refl]) (rule Min_dist_self)
  have c: "map (\<lambda>q. Min (set (map (\<lambda>p. euclidean p q) ?ps))) ?ps = map (\<lambda>p. 0) ?ps"
    by (rule map_cong [OF refl]) (rule Min_dist_self)
  have z: "set (map (\<lambda>p. 0::real) ?ps) = {0}" using ne by (cases t) auto
  show ?thesis
    using False unfolding calculateTrajectoriesDistanceHausdorff_def Let_def r c z by simp
qed

lemma euclidean_ge_dy: "\<bar>real_of_int (snd p - snd q)\<bar> \<le> euclidean p q"
proof -
  have "\<bar>real_of_int (snd p - snd q)\<bar> = sqrt ((real_of_int (snd p - snd q))\<^sup>2)" by simp
  also have "\<dots> \<le> euclidean p q"
    unfolding euclidean_def by (rule real_sqrt_le_mono) simp
  finally show ?thesis .
qed

lemma hausdorff_AB:
  "10 < calculateTrajectoriesDistanceHausdorff tracA tracB"
  "10 < calculateTrajectoriesDistanceHausdorff tracB tracA"
proof -
  have d: "100 \<le> euclidean (x, 0) (x', 100)" "100 \<le> euclidean (x, 100) (x', 0)" for x x'
    using euclidean_ge_dy [of "(x, 0)" "(x', 100)"] euclidean_ge_dy [of "(x, 100)" "(x', 0)"]
    by simp_all
  have "100 \<le> calculateTrajectoriesDistanceHausdorff tracA tracB"
    using d by (simp add: calculateTrajectoriesDistanceHausdorff_def tracA_def tracB_def Let_def
        px_def py_def le_max_iff_disj)
  then show "10 < calculateTrajectoriesDistanceHausdorff tracA tracB" by simp
  have "100 \<le> calculateTrajectoriesDistanceHausdorff tracB tracA"
    using d by (simp add: calculateTrajectoriesDistanceHausdorff_def tracA_def tracB_def Let_def
        px_def py_def le_max_iff_disj)
  then show "10 < calculateTrajectoriesDistanceHausdorff tracB tracA" by simp
qed

lemma scanFinal_none:
  "\<forall>b \<in> set rest. crit item b = Inr False \<Longrightarrow> scanFinal crit item fl rest = Inr None"
  by (induction rest) auto

lemma mergeLoop_keeps_all:
  "\<forall>a \<in> set wl. \<forall>b \<in> set fl. crit a b = Inr False \<Longrightarrow>
   \<forall>i j. i < j \<longrightarrow> j < length wl \<longrightarrow> crit (wl ! i) (wl ! j) = Inr False \<Longrightarrow>
   mergeLoop crit wl fl = Inr (fl @ rev wl)"
proof (induction wl arbitrary: fl rule: rev_induct)
  case Nil
  then show ?case by (simp add: mergeLoop.simps)
next
  case (snoc item wl)
  have none: "scanFinal crit item fl fl = Inr None"
    using snoc.prems(1) by (intro scanFinal_none) auto
  have a: "\<forall>a \<in> set wl. \<forall>b \<in> set (fl @ [item]). crit a b = Inr False"
  proof (intro ballI)
    fix a b assume a: "a \<in> set wl" and b: "b \<in> set (fl @ [item])"
    from a obtain i where i: "i < length wl" "wl ! i = a" by (auto simp: in_set_conv_nth)
    show "crit a b = Inr False"
    proof (cases "b = item")
      case True
      have "crit ((wl @ [item]) ! i) ((wl @ [item]) ! length wl) = Inr False"
        using snoc.prems(2) [rule_format, of i "length wl"] i by simp
      then show ?thesis using i True by (simp add: nth_append)
    next
      case False
      then show ?thesis using snoc.prems(1) a b by auto
    qed
  qed
  have b: "\<forall>i j. i < j \<longrightarrow> j < length wl \<longrightarrow> crit (wl ! i) (wl ! j) = Inr False"
  proof (intro allI impI)
    fix i j assume "i < j" "j < length wl"
    then show "crit (wl ! i) (wl ! j) = Inr False"
      using snoc.prems(2) [rule_format, of i j] by (simp add: nth_append)
  qed
  have "mergeLoop crit (wl @ [item]) fl = mergeLoop crit wl (fl @ [item])"
    using none by (subst mergeLoop.simps) simp
  also have "\<dots> = Inr ((fl @ [item]) @ rev wl)" by (rule snoc.IH [OF a b])
  finally show ?case by simp
qed

lemma mergeLoop_empty_item:
  assumes "0 \<le> hb" "fl \<noteq> []"
  shows "mergeLoop (criteria fp mo True hb) (wl @ [[]]) fl = mergeLoop (criteria fp mo True hb) wl fl"
proof -
  obtain f rest where fl: "fl = f # rest" using assms(2) by (cases fl) auto
  have "scanFinal (criteria fp mo True hb) [] fl fl = Inr (Some fl)"
    using assms(1) by (simp add: fl criteria_def hausdorff_empty)
  then show ?thesis by (subst mergeLoop.simps) simp
qed

text \<open>
  C7 (as amended). When no two members of the pooled list \<^verbatim>\<open>traclist1 + traclist2\<close> are
  duplicates of each other under the selected metric and threshold (the earlier one
  compared with the later one, as the loop does, for pairs inside one list as well as
  across the lists), \<^verbatim>\<open>combineTrajectories\<close> returns every member once, in reverse order:
  the length is the sum of the two lengths and nothing is dropped or replaced.
\<close>

theorem combineTrajectories_keeps_pairwise_distinct:
  assumes "\<forall>i j. i < j \<longrightarrow> j < length (traclist1 @ traclist2) \<longrightarrow>
             criteria fillPoly maxoverlap useHausdorff hausdorffbias
               ((traclist1 @ traclist2) ! i) ((traclist1 @ traclist2) ! j) = Inr False"
  shows "\<exists>result. combineTrajectories fillPoly traclist1 traclist2 maxoverlap useHausdorff
                     hausdorffbias = Inr result \<and>
                   length result = length traclist1 + length traclist2 \<and>
                   result = rev (traclist1 @ traclist2)"
proof -
  have "combineTrajectories fillPoly traclist1 traclist2 maxoverlap useHausdorff hausdorffbias
        = Inr ([] @ rev (traclist1 @ traclist2))"
    unfolding combineTrajectories_def using assms by (intro mergeLoop_keeps_all) simp_all
  then show ?thesis by simp
qed

text \<open>The theorem at the lists \<open>[tracA]\<close> and \<open>[tracB]\<close> with the Hausdorff metric and bias 10.\<close>

theorem combineTrajectories_keeps_pairwise_distinct_witness:
  "\<exists>result. combineTrajectories vertexFill [tracA] [tracB] (3 / 4) True 10 = Inr result \<and>
             length result = length [tracA] + length [tracB] \<and>
             result = rev ([tracA] @ [tracB])"
proof -
  have h: "\<forall>i j. i < j \<longrightarrow> j < length ([tracA] @ [tracB]) \<longrightarrow>
      criteria vertexFill (3 / 4) True 10 (([tracA] @ [tracB]) ! i) (([tracA] @ [tracB]) ! j)
        = Inr False"
  proof (intro allI impI)
    fix i j :: nat
    assume "i < j" "j < length ([tracA] @ [tracB])"
    then have "i = 0 \<and> j = 1" by auto
    then show "criteria vertexFill (3 / 4) True 10 (([tracA] @ [tracB]) ! i)
        (([tracA] @ [tracB]) ! j) = Inr False"
      using hausdorff_AB(1) by (simp add: criteria_def)
  qed
  show ?thesis by (rule combineTrajectories_keeps_pairwise_distinct [OF h])
qed

text \<open>
  C7 as stated fails: \<open>tracA\<close> and \<open>tracB\<close> are no duplicates of each other in either
  order, so every cross pair of the lists \<open>[tracA, tracA]\<close> and \<open>[tracB]\<close> is
  non-duplicate, yet the result has two members, not three: the two copies of \<open>tracA\<close>
  inside the first list are merged.
\<close>

theorem combineTrajectories_counterexample:
  "criteria vertexFill (3 / 4) True 10 tracA tracB = Inr False \<and>
   criteria vertexFill (3 / 4) True 10 tracB tracA = Inr False \<and>
   combineTrajectories vertexFill [tracA, tracA] [tracB] (3 / 4) True 10 = Inr [tracB, tracA] \<and>
   length [tracB, tracA] \<noteq> length [tracA, tracA] + length [tracB]"
  using hausdorff_AB
  by (simp add: combineTrajectories_def criteria_def hausdorff_self mergeLoop.simps)

text \<open>
  C10 (as amended). The Hausdorff distance of an empty trajectory to any trajectory is
  0, as is the distance of a trajectory to itself. So with \<^verbatim>\<open>useHausdorff=True\<close> and a
  bias that is not negative, an empty trajectory popped while the final list already
  has a member is found to be a duplicate of the first member, and the final list stays
  as it is: the empty trajectory is not added.
\<close>

theorem hausdorff_empty_trajectory_is_duplicate:
  "calculateTrajectoriesDistanceHausdorff [] t = 0 \<and>
   calculateTrajectoriesDistanceHausdorff t t = 0 \<and>
   (0 \<le> hausdorffbias \<longrightarrow> finallist \<noteq> [] \<longrightarrow>
      criteria fillPoly maxoverlap True hausdorffbias [] (hd finallist) = Inr True \<and>
      mergeLoop (criteria fillPoly maxoverlap True hausdorffbias) (workinglist @ [[]]) finallist
        = mergeLoop (criteria fillPoly maxoverlap True hausdorffbias) workinglist finallist)"
proof (intro conjI impI)
  show "calculateTrajectoriesDistanceHausdorff [] t = 0" by (rule hausdorff_empty)
  show "calculateTrajectoriesDistanceHausdorff t t = 0" by (rule hausdorff_self)
next
  assume "0 \<le> hausdorffbias"
  then show "criteria fillPoly maxoverlap True hausdorffbias [] (hd finallist) = Inr True"
    by (simp add: criteria_def hausdorff_empty)
next
  assume "0 \<le> hausdorffbias" "finallist \<noteq> []"
  then show "mergeLoop (criteria fillPoly maxoverlap True hausdorffbias) (workinglist @ [[]])
      finallist = mergeLoop (criteria fillPoly maxoverlap True hausdorffbias) workinglist finallist"
    by (rule mergeLoop_empty_item)
qed

text \<open>The theorem at bias 10 with \<open>tracA\<close> already accepted.\<close>

theorem hausdorff_empty_trajectory_is_duplicate_witness:
  "calculateTrajectoriesDistanceHausdorff [] tracA = 0 \<and>
   calculateTrajectoriesDistanceHausdorff tracA tracA = 0 \<and>
   criteria vertexFill (3 / 4) True 10 [] (hd [tracA]) = Inr True \<and>
   mergeLoop (criteria vertexFill (3 / 4) True 10) ([] @ [[]]) [tracA]
     = mergeLoop (criteria vertexFill (3 / 4) True 10) [] [tracA]"
proof -
  have b: "(0::real) \<le> 10" by simp
  have ne: "[tracA] \<noteq> []" by simp
  from hausdorff_empty_trajectory_is_duplicate
    [of tracA 10 "[tracA]" vertexFill "3 / 4" "[]"] b ne
  show ?thesis by blast
qed

text \<open>
  C10 as stated fails for a negative bias: with \<^verbatim>\<open>hausdorffbias=-1.0\<close> the distance 0 of
  the empty trajectory to the accepted \<open>tracA\<close> is not within the bias, and the empty
  trajectory is kept as an entry of its own.
\<close>

theorem hausdorff_empty_trajectory_counterexample:
  "criteria vertexFill (3 / 4) True (- 1) [] tracA = Inr False \<and>
   combineTrajectories vertexFill [[]] [tracA] (3 / 4) True (- 1) = Inr [tracA, []]"
  by (simp add: combineTrajectories_def criteria_def hausdorff_empty mergeLoop.simps)

subsection \<open>Gradient tracer\<close>

lemma traceIterations_bound:
  "traceIterations step img startpoints maxiteration densityrad maxattraction gradient
     trajectory slope i \<le> max 1 (nat (maxiteration + 1 - i))"
proof (induction step img startpoints maxiteration densityrad maxattraction gradient
     trajectory slope i rule: traceIterations.induct)
  case (1 step img startpoints maxiteration densityrad maxattraction gradient trajectory slope i)
  show ?case
  proof (cases "step img startpoints densityrad maxattraction gradient (last trajectory) slope")
    case Break
    then show ?thesis by (subst traceIterations.simps) simp
  next
    case (Raise e)
    then show ?thesis by (subst traceIterations.simps) simp
  next
    case (Move targetpoint slope')
    show ?thesis
    proof (cases "filter (nearInlet targetpoint gradient) startpoints = [] \<and> \<not> maxiteration < i + 1")
      case True
      have "traceIterations step img startpoints maxiteration densityrad maxattraction gradient
              (trajectory @ [(fst targetpoint, snd targetpoint, 10)] @
                 filter (nearInlet targetpoint gradient) startpoints) slope' (i + 1)
            \<le> max 1 (nat (maxiteration + 1 - (i + 1)))"
        using "1.IH" [OF Move refl refl] True by simp
      moreover have "max 1 (nat (maxiteration + 1 - (i + 1))) = nat (maxiteration - i)"
        using True by auto
      moreover have "nat (maxiteration + 1 - i) = Suc (nat (maxiteration - i))"
        using True by auto
      ultimately show ?thesis
        using Move True by (subst traceIterations.simps) (simp add: Let_def)
    next
      case False
      then show ?thesis
        using Move by (subst traceIterations.simps) (auto simp: Let_def)
    qed
  qed
qed

lemma traceLoop_grows:
  "traceLoop step img startpoints maxiteration densityrad maxattraction gradient
     trajectory slope i = Inr (t, k) \<Longrightarrow> length trajectory \<le> length t"
proof (induction step img startpoints maxiteration densityrad maxattraction gradient
     trajectory slope i rule: traceLoop.induct)
  case (1 step img startpoints maxiteration densityrad maxattraction gradient trajectory slope i)
  show ?case
  proof (cases "step img startpoints densityrad maxattraction gradient (last trajectory) slope")
    case Break
    then show ?thesis using "1.prems" by (subst (asm) traceLoop.simps) simp
  next
    case (Raise e)
    then show ?thesis using "1.prems" by (subst (asm) traceLoop.simps) simp
  next
    case (Move targetpoint slope')
    show ?thesis
    proof (cases "filter (nearInlet targetpoint gradient) startpoints = [] \<and> \<not> maxiteration < i + 1")
      case True
      have "traceLoop step img startpoints maxiteration densityrad maxattraction gradient
              (trajectory @ [(fst targetpoint, snd targetpoint, 10)] @
                 filter (nearInlet targetpoint gradient) startpoints) slope' (i + 1) = Inr (t, k)"
        using "1.prems" Move True by (subst (asm) traceLoop.simps) (simp add: Let_def)
      from "1.IH" [OF Move refl refl _ this] True show ?thesis by simp
    next
      case False
      then show ?thesis
        using "1.prems" Move by (subst (asm) traceLoop.simps) (auto simp: Let_def)
    qed
  qed
qed

lemma traceEndpoints_min_length:
  "traceEndpoints step img startpoints flow maxiteration gradientfactor densityrad
     maxattraction endpoints acc = Inr res \<Longrightarrow>
   \<forall>t \<in> set acc. 2 \<le> length t \<Longrightarrow> \<forall>t \<in> set res. 2 \<le> length t"
proof (induction endpoints arbitrary: acc)
  case Nil
  then show ?case by simp
next
  case (Cons endpoint endpoints)
  let ?r = "traceLoop step img startpoints maxiteration densityrad maxattraction
              (stepSize img gradientfactor) [endpoint] flow 0"
  show ?case
  proof (cases ?r)
    case (Inl e)
    then show ?thesis using Cons.prems(1) by simp
  next
    case (Inr p)
    obtain trajectory i where p: "p = (trajectory, i)" by (cases p)
    let ?acc = "if 1 < length trajectory then acc @ [rev trajectory] else acc"
    have rec: "traceEndpoints step img startpoints flow maxiteration gradientfactor densityrad
        maxattraction endpoints ?acc = Inr res"
      using Cons.prems(1) Inr p by simp
    have "\<forall>t \<in> set ?acc. 2 \<le> length t"
      using Cons.prems(2) by auto
    then show ?thesis by (rule Cons.IH [OF rec])
  qed
qed

lemma stepSize_bright: "stepSize (brightImage 10 100) (1 / 10) = 10"
  by (simp add: stepSize_def brightImage_def py_int_def)

text \<open>
  C5 (the code at the failing input). With \<^verbatim>\<open>maxiteration=1\<close>, no inlets and a step that
  always finds a next point, the loop body is entered twice for the endpoint
  \<open>(90, 5, 1)\<close>: the counter is raised before the test \<^verbatim>\<open>i > maxiteration\<close>, so the loop
  stops at \<open>i = 2\<close>, one iteration after the cap.
\<close>

theorem traceLoop_runs_past_maxiteration:
  "traceIterations stepLeft (brightImage 10 100) [] 1 1 1
     (stepSize (brightImage 10 100) (1 / 10)) [(90, 5, 1)] (- 1, 0) 0 = 2 \<and>
   traceLoop stepLeft (brightImage 10 100) [] 1 1 1
     (stepSize (brightImage 10 100) (1 / 10)) [(90, 5, 1)] (- 1, 0) 0
     = Inr ([(90, 5, 1), (89, 5, 10), (88, 5, 10)], 2)"
  unfolding stepSize_bright
  by (subst traceIterations.simps, simp add: stepLeft_def px_def py_def,
      subst traceIterations.simps, simp add: stepLeft_def px_def py_def,
      subst traceLoop.simps, simp add: stepLeft_def px_def py_def,
      subst traceLoop.simps, simp add: stepLeft_def px_def py_def)

subsection \<open>Shortest-path tracer\<close>

lemma findPathOnImage_length:
  "findPathOnImage img startpoint endpoint bias everyotherpoint densityrad = Some (Inr path)
   \<Longrightarrow> path = [] \<or> 2 \<le> length path"
  unfolding findPathOnImage_def Let_def
  by (simp split: if_splits option.splits sum.splits)

lemma pathsToStartpoints_min_length:
  "pathsToStartpoints img bias everyotherpoint densityrad spvariancefactor endpoint startpoints
     acc = Some (Inr res) \<Longrightarrow>
   \<forall>t \<in> set acc. 2 \<le> length t \<Longrightarrow> \<forall>t \<in> set res. 2 \<le> length t"
proof (induction startpoints arbitrary: acc)
  case Nil
  then show ?case by simp
next
  case (Cons startpoint rest)
  show ?case
  proof (cases "snapStart img bias spvariancefactor startpoint")
    case (Inl e)
    then show ?thesis using Cons.prems(1) by simp
  next
    case (Inr startpoint')
    show ?thesis
    proof (cases "findPathOnImage img (px endpoint, py endpoint) (px startpoint', py startpoint')
                  bias everyotherpoint densityrad")
      case None
      then show ?thesis using Cons.prems(1) Inr by simp
    next
      case (Some r)
      show ?thesis
      proof (cases r)
        case (Inl e)
        then show ?thesis using Cons.prems(1) Inr Some by simp
      next
        case path: (Inr path)
        let ?acc = "if 0 < length path
                  then acc @ [map (\<lambda>p. (fst p, snd p, 10)) (rev path)] else acc"
        have rec: "pathsToStartpoints img bias everyotherpoint densityrad spvariancefactor
            endpoint rest ?acc = Some (Inr res)"
          using Cons.prems(1) Inr Some path by simp
        have "path = [] \<or> 2 \<le> length path"
          using Some path by (intro findPathOnImage_length) simp
        then have "\<forall>t \<in> set ?acc. 2 \<le> length t"
          using Cons.prems(2) by auto
        then show ?thesis by (rule Cons.IH [OF rec])
      qed
    qed
  qed
qed

lemma pathsFromEndpoints_min_length:
  "pathsFromEndpoints img bias everyotherpoint densityrad spvariancefactor startpoints endpoints
     acc = Some (Inr res) \<Longrightarrow>
   \<forall>t \<in> set acc. 2 \<le> length t \<Longrightarrow> \<forall>t \<in> set res. 2 \<le> length t"
proof (induction endpoints arbitrary: acc)
  case Nil
  then show ?case by simp
next
  case (Cons endpoint rest)
  show ?case
  proof (cases "pathsToStartpoints img bias everyotherpoint densityrad spvariancefactor endpoint
             startpoints acc")
    case None
    then show ?thesis using Cons.prems(1) by simp
  next
    case (Some r)
    show ?thesis
    proof (cases r)
      case (Inl e)
      then show ?thesis using Cons.prems(1) Some by simp
    next
      case (Inr acc')
      have rec: "pathsFromEndpoints img bias everyotherpoint densityrad spvariancefactor
          startpoints rest acc' = Some (Inr res)"
        using Cons.prems(1) Some Inr by simp
      have sub: "pathsToStartpoints img bias everyotherpoint densityrad spvariancefactor endpoint
          startpoints acc = Some (Inr acc')"
        using Some Inr by simp
      have "\<forall>t \<in> set acc'. 2 \<le> length t"
        by (rule pathsToStartpoints_min_length [OF sub Cons.prems(2)])
      then show ?thesis by (rule Cons.IH [OF rec])
    qed
  qed
qed

text \<open>A run of the shortest-path tracer on a bright image of 3 rows and 4 columns.\<close>

lemma density_bright34:
  "densityImage (brightImage 3 4) 1 = ((\<lambda>p. 0)((1, 1) := 1020, (1, 2) := 1020))"
  by (simp add: densityImage_def densityColumn_def windowSum_def brightImage_def
        upt_rec [of 0] upt_rec [of 1] upt_rec [of 2] numeral_2_eq_2 numeral_3_eq_3)

lemma cells34:
  "allCells 3 4 = [(0,0),(0,1),(0,2),(0,3),(1,0),(1,1),(1,2),(1,3),(2,0),(2,1),(2,2),(2,3)]"
  by (simp add: allCells_def upt_rec [of 0] upt_rec [of 1] upt_rec [of 2] upt_rec [of 3]
        numeral_2_eq_2 numeral_3_eq_3 eval_nat_numeral)

lemma infinite34: "py_int (vnorm (real 3, real 4) * 100000000) = 500000000"
proof -
  have "(3 :: real)\<^sup>2 + 4\<^sup>2 = 5\<^sup>2" by simp
  then have "sqrt (3\<^sup>2 + 4\<^sup>2) = (5 :: real)" by (simp only: real_sqrt_abs abs_numeral)
  then show ?thesis by (simp add: vnorm_def py_int_def)
qed

lemma min_q1: "Min (set [(500000000, 1, 1), (0, 2, 1 :: int)]) = (0 :: int, 2 :: int, 1)"
  by simp

lemma search34:
  "searchLoop ((\<lambda>p. 0)((1, 1) := 1020, (1, 2) := 1020)) 1020 [(1, 1), (1, 2)] (1, 1)
     [(500000000, 1, 1), (0, 2, 1)] ((\<lambda>p. 0)((1, 1) := - 1))
   = Inr ((\<lambda>p. 0)((1, 1) := 1))"
  apply (subst searchLoop.simps)
  apply (simp add: q_x_def q_y_def q_dist_def neighboursOf_def vnorm_def py_int_def pointIndex_def)
  apply (subst searchLoop.simps)
  apply (simp add: q_x_def q_y_def q_dist_def)
  done

lemma backtrack34:
  "backtrack (((\<lambda>p. 0)((1, 1) := 1))((1, 2) := - 1)) [(1, 1), (1, 2)] (2, 1) 10 (1, 1) [(1, 1)] 0
   = Some (Inr [(2, 1), (1, 1)])"
  apply (subst backtrack.simps)
  apply (simp add: py_nth_def np_index_def)
  apply (subst backtrack.simps)
  apply simp
  done

lemma max34:
  "Max (set (map ((\<lambda>p. 0)((1, 1) := 1020, (1, 2) := 1020 :: int)) (allCells 3 4))) = 1020"
  unfolding cells34 by simp

lemma points34:
  "filter (\<lambda>p. 50 < ((\<lambda>p. 0)((1, 1) := 1020, (1, 2) := 1020 :: int)) p) (allCells 3 4) = [(1, 1), (1, 2)]"
  unfolding cells34 by simp

lemma findPath34:
  "findPathOnImage (brightImage 3 4) (2, 1) (1, 1) 50 10 1 = Some (Inr [(2, 1), (1, 1)])"
  unfolding findPathOnImage_def Let_def density_bright34
  apply (simp only: brightImage_def image.simps infinite34 max34 points34)
  apply (simp add: np_cell_def np_index_def search34 [simplified] backtrack34 [simplified])
  done

lemma snap34: "snapStart (brightImage 3 4) 50 2 (1, 1, 1) = Inr (1, 1, 1)"
  by (simp add: snapStart_def np_cell_def np_index_def brightImage_def px_def py_def)

lemma imgmax34:
  "Max (set (map (\<lambda>p. img_pixel (brightImage 3 4) (fst p) (snd p)) (allCells 3 4))) = 255"
  unfolding cells34 by (simp add: brightImage_def)

lemma dijkstra34:
  "getTrajectoriesFromImageDijkstra (brightImage 3 4) [(1, 1, 1)] [(2, 1, 1)] 50 10 1 2
   = Some (Inr [[(1, 1, 10), (2, 1, 10)]])"
proof -
  have hw: "img_height (brightImage 3 4) = 3" "img_width (brightImage 3 4) = 4"
    by (simp_all add: brightImage_def)
  show ?thesis
    unfolding getTrajectoriesFromImageDijkstra_def hw imgmax34
    by (simp add: snap34 px_def py_def findPath34 [simplified])
qed

lemma gradient_bright:
  "getTrajectoriesFromImage stepLeft (brightImage 10 100) [] [(90, 5, 1)] (- 1, 0) 1 (1 / 10) 1 1
   = Inr [[(88, 5, 10), (89, 5, 10), (90, 5, 1)]]"
  unfolding getTrajectoriesFromImage_def
  apply (simp add: stepSize_bright)
  apply (subst traceLoop.simps, simp add: stepLeft_def px_def py_def)
  apply (subst traceLoop.simps, simp add: stepLeft_def px_def py_def)
  done

text \<open>
  C8. Every trajectory in the list returned by the gradient tracer and every trajectory in
  the list returned by the shortest-path tracer has at least two points. The gradient
  tracer appends a trajectory only if \<^verbatim>\<open>len(trajectory) > 1\<close>; the shortest-path tracer
  appends a path only if it is not empty, and \<^verbatim>\<open>findPathOnImage\<close> returns the empty list
  for a path of fewer than two points. The second theorem runs both tracers on bright
  images, where each returns one trajectory.
\<close>

theorem tracers_return_at_least_two_points:
  "(getTrajectoriesFromImage step img startpoints endpoints flow maxiteration gradientfactor
      densityrad maxattraction = Inr trajectories
    \<longrightarrow> (\<forall>t \<in> set trajectories. 2 \<le> length t)) \<and>
   (getTrajectoriesFromImageDijkstra img' startpoints' endpoints' bias everyotherpoint densityrad'
      spvariancefactor = Some (Inr trajectories')
    \<longrightarrow> (\<forall>t \<in> set trajectories'. 2 \<le> length t))"
proof (intro conjI impI)
  assume "getTrajectoriesFromImage step img startpoints endpoints flow maxiteration gradientfactor
      densityrad maxattraction = Inr trajectories"
  then have "traceEndpoints step img startpoints flow maxiteration gradientfactor densityrad
       maxattraction endpoints [] = Inr trajectories"
    by (simp add: getTrajectoriesFromImage_def)
  then show "\<forall>t \<in> set trajectories. 2 \<le> length t"
    by (rule traceEndpoints_min_length) simp
next
  assume a: "getTrajectoriesFromImageDijkstra img' startpoints' endpoints' bias everyotherpoint
      densityrad' spvariancefactor = Some (Inr trajectories')"
  show "\<forall>t \<in> set trajectories'. 2 \<le> length t"
  proof (cases "trajectories' = []")
    case True
    then show ?thesis by simp
  next
    case False
    then have "pathsFromEndpoints img' bias everyotherpoint densityrad' spvariancefactor
        startpoints' endpoints' [] = Some (Inr trajectories')"
      using a by (simp add: getTrajectoriesFromImageDijkstra_def split: if_splits)
    then show ?thesis by (rule pathsFromEndpoints_min_length) simp
  qed
qed

theorem tracers_return_at_least_two_points_witness:
  "getTrajectoriesFromImage stepLeft (brightImage 10 100) [] [(90, 5, 1)] (- 1, 0) 1 (1 / 10) 1 1
     = Inr [[(88, 5, 10), (89, 5, 10), (90, 5, 1)]] \<and>
   getTrajectoriesFromImageDijkstra (brightImage 3 4) [(1, 1, 1)] [(2, 1, 1)] 50 10 1 2
     = Some (Inr [[(1, 1, 10), (2, 1, 10)]]) \<and>
   2 \<le> length [(88 :: int, 5 :: int, 10 :: real), (89, 5, 10), (90, 5, 1)] \<and>
   2 \<le> length [(1 :: int, 1 :: int, 10 :: real), (2, 1, 10)]"
  using tracers_return_at_least_two_points
    [of stepLeft "brightImage 10 100" "[]" "[(90, 5, 1)]" "(- 1, 0)" 1 "1 / 10" 1 1
        "[[(88, 5, 10), (89, 5, 10), (90, 5, 1)]]"
        "brightImage 3 4" "[(1, 1, 1)]" "[(2, 1, 1)]" 50 10 1 2 "[[(1, 1, 10), (2, 1, 10)]]"]
  by (simp add: gradient_bright dijkstra34 [simplified])

subsection \<open>Paths from the corner of an image\<close>

lemma densityColumn_origin:
  "0 < densityrad \<Longrightarrow> d (0, 0) = 0 \<Longrightarrow> densityColumn img densityrad x d (0, 0) = 0"
proof -
  assume r: "0 < densityrad"
  have "d (0, 0) = 0 \<Longrightarrow>
        fold (\<lambda>y d. if img_pixel img (y + densityrad) (x + densityrad) \<noteq> 0
                  then d((y + densityrad, x + densityrad) := windowSum img densityrad y x)
                  else d) ys d (0, 0) = 0" for ys
  proof (induction ys arbitrary: d)
    case Nil
    then show ?case by simp
  next
    case (Cons y ys)
    show ?case
      unfolding fold_simps
      by (rule Cons.IH) (use Cons.prems r in auto)
  qed
  then show "d (0, 0) = 0 \<Longrightarrow> densityColumn img densityrad x d (0, 0) = 0"
    by (simp add: densityColumn_def)
qed

lemma densityImage_origin: "0 < densityrad \<Longrightarrow> densityImage img densityrad (0, 0) = 0"
proof -
  assume r: "0 < densityrad"
  have "d (0, 0) = 0 \<Longrightarrow> fold (densityColumn img densityrad) xs d (0, 0) = 0"
    for xs and d :: density
  proof (induction xs arbitrary: d)
    case Nil
    then show ?case by simp
  next
    case (Cons x xs)
    show ?case
      unfolding fold_simps
      by (rule Cons.IH) (rule densityColumn_origin [of densityrad d, OF r Cons.prems])
  qed
  then show ?thesis by (simp add: densityImage_def)
qed

lemma np_cell_origin: "0 < height \<Longrightarrow> 0 < width \<Longrightarrow> np_cell height width 0 0 = Some (0, 0)"
  by (simp add: np_cell_def np_index_def)

text \<open>
  C2 (the code at the failing input). On the bright image of 9 rows and 10 columns, with
  the default parameters \<^verbatim>\<open>bias=50\<close>, \<^verbatim>\<open>everyotherpoint=10\<close> and \<^verbatim>\<open>densityrad=4\<close>, the
  pixel at the corner \<open>(0, 0)\<close> has the intensity 255, yet its density is 0: the density
  loops write only cells that are at least \<^verbatim>\<open>densityrad\<close> away from the top and the left
  border. The test "Is the start or end point empty?" then takes the bright start point
  for an empty one, and the path from \<open>(0, 0)\<close> to \<open>(9, 8)\<close> is the empty list.
\<close>

theorem findPathOnImage_bright_corner_returns_empty:
  "img_pixel (brightImage 9 10) 0 0 = 255 \<and>
   densityImage (brightImage 9 10) 4 (0, 0) = 0 \<and>
   findPathOnImage (brightImage 9 10) (0, 0) (10 - 1, 9 - 1) 50 10 4 = Some (Inr [])"
proof -
  have d: "densityImage (brightImage 9 10) 4 (0, 0) = 0"
    by (rule densityImage_origin) simp
  have hw: "img_height (brightImage 9 10) = 9" "img_width (brightImage 9 10) = 10"
    by (simp_all add: brightImage_def)
  have "findPathOnImage (brightImage 9 10) (0, 0) (10 - 1, 9 - 1) 50 10 4 = Some (Inr [])"
    unfolding findPathOnImage_def Let_def hw
    by (simp add: np_cell_origin d)
  then show ?thesis using d by (simp add: brightImage_def)
qed

subsection \<open>Width profiler\<close>

lemma density_bright35:
  "densityImage (brightImage 3 5) 1 = ((\<lambda>p. 0)((1, 1) := 1020, (1, 2) := 1020, (1, 3) := 1020))"
  by (simp add: densityImage_def densityColumn_def windowSum_def brightImage_def
        upt_rec [of 0] upt_rec [of 1] upt_rec [of 2] upt_rec [of 3] numeral_2_eq_2 numeral_3_eq_3)

lemma sqrt_four: "sqrt 4 = 2"
proof -
  have "sqrt ((2 :: real)\<^sup>2) = 2" by (simp only: real_sqrt_abs abs_numeral)
  then show ?thesis by simp
qed

lemma firstSlope_up: "firstSlope [(2, 1, 0), (2, 2, 0)] = (0, 1)"
  by (simp add: firstSlope_def unitvec_def vnorm_def px_def py_def)

lemma linspace_two: "linspace a b 2 = [a, b]"
  by (simp add: linspace_def numeral_2_eq_2)

lemma slopeAt_last: "length t = Suc i \<Longrightarrow> slopeAt t i lastslope = lastslope"
  by (simp add: slopeAt_def)

lemma skinvectorOf_same: "skinvectorOf slope slope = (- snd slope, fst slope)"
  by (simp add: skinvectorOf_def cross2_def)

lemma vnorm_horizontal: "vnorm (a, 0) = \<bar>a\<bar>"
  by (simp add: vnorm_def)

lemma py_int_of_int: "py_int (real_of_int k) = k"
  by (simp add: py_int_def)

lemma py_int_numeral: "py_int (numeral k) = numeral k" "py_int 0 = 0" "py_int 1 = 1"
  by (simp_all add: py_int_def)

lemma widthLoop_bright35:
  "widthLoop profile ((\<lambda>p. 0)((1, 1) := 1020, (1, 2) := 1020, (1, 3) := 1020)) 3 5
     [(2, 1, 0), (2, 2, 0)] (0, 1) (0 # is) [] = Inl IndexError"
proof -
  have slope: "slopeAt [(2, 1, 0), (2, 2, 0)] 0 (0, 1) = (0, 1)"
    by (simp add: slopeAt_def unitvec_def vnorm_def px_def py_def)
  have pts: "samplePoints (1, 1) (3, 1) 2 = [(1, 1), (3, 1)]"
    by (simp add: samplePoints_def linspace_two py_int_numeral)
  have vals: "sampleValues ((\<lambda>p. 0)((1, 1) := 1020, (1, 2) := 1020, (1, 3) := 1020)) 3 5
                [(1, 1), (3, 1)] = [1020, 1020]"
    by (simp add: sampleValues_def)
  have left: "firstZero (sliceDown [1020, 1020] 1) = None"
    by (simp add: firstZero_def sliceDown_def)
  show ?thesis
    apply (subst widthLoop.simps)
    apply (simp only: Let_def slope skinvectorOf_same fst_conv snd_conv)
    apply (simp add: px_def py_def vnorm_horizontal py_int_numeral pts [simplified]
              vals [simplified] left [simplified] del: widthLoop.simps)
    done
qed

text \<open>
  C3 (the code at the failing input). On the bright image of 3 rows and 5 columns, for
  the trajectory \<open>[(2, 1, 0), (2, 2, 0)]\<close> and \<^verbatim>\<open>densityrad = 1\<close>, the sample line of
  the first point is the two pixels \<open>(1, 1)\<close> and \<open>(3, 1)\<close>, both of density 1020. The left
  half \<^verbatim>\<open>wvalues[midindex:0:-1]\<close> is \<open>[1020]\<close>: it has no zero, and
  \<^verbatim>\<open>np.argwhere(wvaluesleft == 0)[0][0]\<close> raises \<^verbatim>\<open>IndexError\<close>, whatever the rest of the
  loop body would do.
\<close>

theorem findWidthOfTrajectory_raises_IndexError:
  "findWidthOfTrajectory profile (brightImage 3 5) [(2, 1, 0), (2, 2, 0)] 1 = Inl IndexError"
proof -
  have hw: "img_height (brightImage 3 5) = 3" "img_width (brightImage 3 5) = 5"
    by (simp_all add: brightImage_def)
  have idx: "[0..<length [(2 :: int, 1 :: int, 0 :: real), (2, 2, 0)]] = 0 # [1]"
    by (simp add: upt_rec [of 0] upt_rec [of 1])
  show ?thesis
    unfolding findWidthOfTrajectory_def density_bright35 hw firstSlope_up idx
    by (simp only: widthLoop_bright35) simp
qed





subsection \<open>Width profiler: the points that are returned\<close>













subsection \<open>Interpolation of a trajectory\<close>

lemma skin_level:
  "getSkinOfTrajectory levelTrajectory
   = [(0, 6), (1, 6), (2, 6), (3, 6), (3, 4), (2, 4), (1, 4), (0, 4)]"
  by (simp add: getSkinOfTrajectory_def levelTrajectory_def firstSlope_def slopeAt_def
        skinvectorOf_def cross2_def unitvec_def vnorm_def px_def py_def pw_def py_int_def Let_def
        upt_rec [of 0] upt_rec [of 1] upt_rec [of 2] upt_rec [of 3])

lemma skin_even: "length (getSkinOfTrajectory t) mod 2 = 0"
  by (simp add: getSkinOfTrajectory_length)

lemma dictItems_Nil: "dictItems pairs = [] \<longleftrightarrow> pairs = []"
proof -
  have "length (dictItems pairs) = length (remdups (map fst pairs))"
    by (simp add: dictItems_def)
  then show ?thesis
    by (metis length_0_conv remdups_eq_nil_iff map_is_Nil_conv)
qed

lemma skinLeftOf_nonempty: "4 \<le> length t \<Longrightarrow> skinLeftOf t \<noteq> []"
proof -
  assume a: "4 \<le> length t"
  then have len: "length (getSkinOfTrajectory t) = 2 * length t"
    by (simp add: getSkinOfTrajectory_length)
  then have "length (take (length (getSkinOfTrajectory t) div 2 - 1) (getSkinOfTrajectory t))
             = length t - 1"
    by simp
  then have "take (length (getSkinOfTrajectory t) div 2 - 1) (getSkinOfTrajectory t) \<noteq> []"
    using a by auto
  then show ?thesis by (simp add: skinLeftOf_def Let_def dictItems_Nil)
qed

lemma skinRightOf_nonempty: "4 \<le> length t \<Longrightarrow> skinRightOf t \<noteq> []"
proof -
  assume a: "4 \<le> length t"
  then have len: "length (getSkinOfTrajectory t) = 2 * length t"
    by (simp add: getSkinOfTrajectory_length)
  then have "length (drop (length (getSkinOfTrajectory t) div 2) (getSkinOfTrajectory t))
             = length t"
    by simp
  then have "drop (length (getSkinOfTrajectory t) div 2) (getSkinOfTrajectory t) \<noteq> []"
    using a by auto
  then show ?thesis by (simp add: skinRightOf_def Let_def dictItems_Nil)
qed

lemma skinLeft_level: "skinLeftOf levelTrajectory = [(0, 6), (1, 6), (2, 6)]"
  by (simp add: skinLeftOf_def skin_level dictItems_def Let_def)

lemma skinRight_level: "skinRightOf levelTrajectory = [(0, 4), (1, 4), (2, 4), (3, 4)]"
  by (simp add: skinRightOf_def skin_level dictItems_def Let_def)

lemma points_level: "map xy levelTrajectory = [(0, 5), (1, 5), (2, 5), (3, 5)]"
  by (simp add: levelTrajectory_def xy_def px_def py_def)

text \<open>
  C4 (as amended). For a trajectory of at least four points: when \<open>x\<close> is outside the
  range of the \<open>x\<close> coordinates of its points, the result is \<open>(0, -1)\<close>, and no spline is
  fitted. When \<open>x\<close> is inside that range and the centerline spline has the value \<open>y\<close>
  at \<open>x\<close>, the result is \<open>(y, -1)\<close> if \<open>x\<close> is outside the range of the left or of the
  right side of the skin, and also if both skin splines are fitted and a warning was
  recorded. The skin has an even number of points, so the test of line 2097 never holds.
\<close>

theorem getYandWofTrajectory_sentinels:
  assumes len: "4 \<le> length trajectory"
  shows "(\<not> withinX (map xy trajectory) x \<longrightarrow>
            getYandWofTrajectory interpolate smooth trajectory x = Inr (0, - 1)) \<and>
         (withinX (map xy trajectory) x \<and> interpolate (map xy trajectory) x = Inr y \<and>
          (\<not> withinX (skinLeftOf trajectory) x \<or> \<not> withinX (skinRightOf trajectory) x) \<longrightarrow>
            getYandWofTrajectory interpolate smooth trajectory x = Inr (y, - 1)) \<and>
         (withinX (map xy trajectory) x \<and> interpolate (map xy trajectory) x = Inr y \<and>
          smooth (skinLeftOf trajectory) = Inr (warnleft, splineleft) \<and>
          smooth (skinRightOf trajectory) = Inr (warnright, splineright) \<and>
          (warnleft \<or> warnright) \<longrightarrow>
            getYandWofTrajectory interpolate smooth trajectory x = Inr (y, - 1)) \<and>
         length (getSkinOfTrajectory trajectory) mod 2 = 0"
proof -
  have n4: "\<not> length trajectory < 4" using len by simp
  have l: "skinLeftOf trajectory \<noteq> []" by (rule skinLeftOf_nonempty [OF len])
  have r: "skinRightOf trajectory \<noteq> []" by (rule skinRightOf_nonempty [OF len])
  have e: "length (getSkinOfTrajectory trajectory) mod 2 = 0" by (rule skin_even)
  have 1: "\<not> withinX (map xy trajectory) x \<longrightarrow>
            getYandWofTrajectory interpolate smooth trajectory x = Inr (0, - 1)"
    by (simp add: getYandWofTrajectory_def n4)
  have 2: "withinX (map xy trajectory) x \<and> interpolate (map xy trajectory) x = Inr y \<and>
          (\<not> withinX (skinLeftOf trajectory) x \<or> \<not> withinX (skinRightOf trajectory) x) \<longrightarrow>
            getYandWofTrajectory interpolate smooth trajectory x = Inr (y, - 1)"
    by (simp add: getYandWofTrajectory_def n4 l r e)
  have 3: "withinX (map xy trajectory) x \<and> interpolate (map xy trajectory) x = Inr y \<and>
          smooth (skinLeftOf trajectory) = Inr (warnleft, splineleft) \<and>
          smooth (skinRightOf trajectory) = Inr (warnright, splineright) \<and>
          (warnleft \<or> warnright) \<longrightarrow>
            getYandWofTrajectory interpolate smooth trajectory x = Inr (y, - 1)"
    by (simp add: getYandWofTrajectory_def n4 l r e)
  from 1 2 3 e show ?thesis by blast
qed

lemma within_level:
  "\<not> withinX (map xy levelTrajectory) 10"
  "withinX (map xy levelTrajectory) 3"
  "withinX (map xy levelTrajectory) 1"
  "\<not> withinX (skinLeftOf levelTrajectory) 3"
  by (simp_all add: withinX_def points_level skinLeft_level)

lemma level_fits:
  "levelInterpolate (map xy levelTrajectory) x = Inr 5"
  "warningSmooth (skinLeftOf levelTrajectory) = Inr (True, \<lambda>x. Some 6)"
  "warningSmooth (skinRightOf levelTrajectory) = Inr (True, \<lambda>x. Some 4)"
  by (simp_all add: levelInterpolate_def warningSmooth_def points_level skinLeft_level
        skinRight_level)

lemma level_length: "4 \<le> length levelTrajectory"
  by (simp add: levelTrajectory_def)

text \<open>
  The theorem on the level trajectory: \<open>x = 10\<close> is outside the range \<open>[0, 3]\<close> of the
  points, \<open>x = 3\<close> is outside the range \<open>[0, 2]\<close> of the left side of the skin, and at
  \<open>x = 1\<close> the fit of the skin records a warning.
\<close>

theorem getYandWofTrajectory_sentinels_witness:
  "4 \<le> length levelTrajectory \<and>
   getYandWofTrajectory levelInterpolate warningSmooth levelTrajectory 10 = Inr (0, - 1) \<and>
   getYandWofTrajectory levelInterpolate warningSmooth levelTrajectory 3 = Inr (5, - 1) \<and>
   getYandWofTrajectory levelInterpolate warningSmooth levelTrajectory 1 = Inr (5, - 1)"
  using getYandWofTrajectory_sentinels
      [where trajectory = levelTrajectory and x = 10 and interpolate = levelInterpolate
         and smooth = warningSmooth and y = 5 and warnleft = True and warnright = True
         and splineleft = "\<lambda>x. Some 6" and splineright = "\<lambda>x. Some 4", OF level_length]
    getYandWofTrajectory_sentinels
      [where trajectory = levelTrajectory and x = 3 and interpolate = levelInterpolate
         and smooth = warningSmooth and y = 5 and warnleft = True and warnright = True
         and splineleft = "\<lambda>x. Some 6" and splineright = "\<lambda>x. Some 4", OF level_length]
    getYandWofTrajectory_sentinels
      [where trajectory = levelTrajectory and x = 1 and interpolate = levelInterpolate
         and smooth = warningSmooth and y = 5 and warnleft = True and warnright = True
         and splineleft = "\<lambda>x. Some 6" and splineright = "\<lambda>x. Some 4", OF level_length]
  by (simp add: within_level level_fits level_length)

text \<open>
  C4 as stated fails. For the level trajectory and \<open>x = 10\<close>, outside the range of the
  centerline, the centerline spline has the value 5, yet the result is \<open>(0, -1)\<close>, not
  \<open>(5, -1)\<close>.
\<close>

theorem getYandWofTrajectory_counterexample:
  "4 \<le> length levelTrajectory \<and>
   \<not> withinX (map xy levelTrajectory) 10 \<and>
   levelInterpolate (map xy levelTrajectory) 10 = Inr 5 \<and>
   getYandWofTrajectory levelInterpolate warningSmooth levelTrajectory 10 = Inr (0, - 1) \<and>
   (0 :: real, - 1 :: real) \<noteq> (5, - 1)"
  by (simp add: getYandWofTrajectory_def within_level level_fits level_length)

end
